theory Spec2Isabelle
  imports Complex_Main
begin

section \<open>Data model\<close>

text \<open>
  The indicator engine of \<^verbatim>\<open>utils/technical_indicators.py\<close> works on a pandas
  DataFrame with the columns Date, Open, High, Low, Close and Volume. A DataFrame is
  modelled as the list of its rows. Prices are finite numbers, the volume is an integer
  and the date is an integer time stamp.

  A pandas float column holds double precision numbers. They are modelled as exact real
  numbers extended by the three special values of IEEE arithmetic that the indicator
  formulas rely on: not-a-number and the two infinities. Rounding and the sign of zero are
  not modelled.
\<close>

datatype fl = NaN | Fin real | PInf | NInf

record bar =
  Date :: int
  Open :: real
  High :: real
  Low :: real
  Close :: real
  Volume :: int

type_synonym dataframe = "bar list"

datatype error = IndexError | ValueError

definition bind_err :: "'e + 'a \<Rightarrow> ('a \<Rightarrow> 'e + 'b) \<Rightarrow> 'e + 'b" where
  "bind_err m f = (case m of Inl e \<Rightarrow> Inl e | Inr v \<Rightarrow> f v)"

definition col_Date :: "dataframe \<Rightarrow> int list" where
  "col_Date data = map Date data"

definition col_Open :: "dataframe \<Rightarrow> fl list" where
  "col_Open data = map (\<lambda>b. Fin (Open b)) data"

definition col_High :: "dataframe \<Rightarrow> fl list" where
  "col_High data = map (\<lambda>b. Fin (High b)) data"

definition col_Low :: "dataframe \<Rightarrow> fl list" where
  "col_Low data = map (\<lambda>b. Fin (Low b)) data"

definition col_Close :: "dataframe \<Rightarrow> fl list" where
  "col_Close data = map (\<lambda>b. Fin (Close b)) data"

definition col_Volume :: "dataframe \<Rightarrow> fl list" where
  "col_Volume data = map (\<lambda>b. Fin (real_of_int (Volume b))) data"

section \<open>Floating point operations\<close>

fun fl_neg :: "fl \<Rightarrow> fl" where
  "fl_neg NaN = NaN"
| "fl_neg (Fin a) = Fin (- a)"
| "fl_neg PInf = NInf"
| "fl_neg NInf = PInf"

fun fl_add :: "fl \<Rightarrow> fl \<Rightarrow> fl" where
  "fl_add NaN _ = NaN"
| "fl_add _ NaN = NaN"
| "fl_add (Fin a) (Fin b) = Fin (a + b)"
| "fl_add PInf NInf = NaN"
| "fl_add NInf PInf = NaN"
| "fl_add PInf _ = PInf"
| "fl_add NInf _ = NInf"
| "fl_add (Fin a) PInf = PInf"
| "fl_add (Fin a) NInf = NInf"

definition fl_sub :: "fl \<Rightarrow> fl \<Rightarrow> fl" where
  "fl_sub a b = fl_add a (fl_neg b)"

fun fl_sign :: "fl \<Rightarrow> int" where
  "fl_sign NaN = 0"
| "fl_sign (Fin a) = (if a < 0 then - 1 else if a = 0 then 0 else 1)"
| "fl_sign PInf = 1"
| "fl_sign NInf = - 1"

definition fl_inf :: "int \<Rightarrow> fl" where
  "fl_inf s = (if s < 0 then NInf else if s = 0 then NaN else PInf)"

fun fl_mul :: "fl \<Rightarrow> fl \<Rightarrow> fl" where
  "fl_mul NaN _ = NaN"
| "fl_mul _ NaN = NaN"
| "fl_mul (Fin a) (Fin b) = Fin (a * b)"
| "fl_mul a b = fl_inf (fl_sign a * fl_sign b)"

text \<open>
  Division of floats never raises: a non-zero number divided by zero is an infinity and
  zero divided by zero is not-a-number.
\<close>

fun fl_div :: "fl \<Rightarrow> fl \<Rightarrow> fl" where
  "fl_div NaN _ = NaN"
| "fl_div _ NaN = NaN"
| "fl_div (Fin a) (Fin b) = (if b = 0 then fl_inf (fl_sign (Fin a)) else Fin (a / b))"
| "fl_div (Fin a) PInf = Fin 0"
| "fl_div (Fin a) NInf = Fin 0"
| "fl_div PInf (Fin b) = (if b < 0 then NInf else PInf)"
| "fl_div NInf (Fin b) = (if b < 0 then PInf else NInf)"
| "fl_div _ _ = NaN"

fun fl_abs :: "fl \<Rightarrow> fl" where
  "fl_abs NaN = NaN"
| "fl_abs (Fin a) = Fin \<bar>a\<bar>"
| "fl_abs PInf = PInf"
| "fl_abs NInf = PInf"

text \<open>Comparisons with not-a-number are false.\<close>

fun fl_less :: "fl \<Rightarrow> fl \<Rightarrow> bool" where
  "fl_less NaN _ = False"
| "fl_less _ NaN = False"
| "fl_less (Fin a) (Fin b) = (a < b)"
| "fl_less _ NInf = False"
| "fl_less PInf _ = False"
| "fl_less NInf _ = True"
| "fl_less (Fin a) PInf = True"

definition fl_min2 :: "fl \<Rightarrow> fl \<Rightarrow> fl" where
  "fl_min2 a b = (if fl_less b a then b else a)"

definition fl_max2 :: "fl \<Rightarrow> fl \<Rightarrow> fl" where
  "fl_max2 a b = (if fl_less a b then b else a)"

definition fl_sum :: "fl list \<Rightarrow> fl" where
  "fl_sum xs = foldr fl_add xs (Fin 0)"

fun is_fin :: "fl \<Rightarrow> bool" where
  "is_fin (Fin a) = True"
| "is_fin _ = False"

fun fin_val :: "fl \<Rightarrow> real" where
  "fin_val (Fin a) = a"
| "fin_val _ = 0"

definition fl_ge :: "fl \<Rightarrow> fl \<Rightarrow> bool" where
  "fl_ge a b = (fl_less b a \<or> (a = b \<and> a \<noteq> NaN))"

section \<open>Series primitives\<close>

text \<open>
  The pandas operations the calculators use. \<^verbatim>\<open>Series.rolling(window=w)\<close> has
  \<^verbatim>\<open>min_periods = w\<close>: the result at position \<open>i\<close> is not-a-number unless the
  window \<open>i - w + 1 .. i\<close> lies inside the series and holds no not-a-number. A negative
  window raises ValueError. A window of 0 has no observation and gives not-a-number.
\<close>

definition window :: "fl list \<Rightarrow> nat \<Rightarrow> nat \<Rightarrow> fl list" where
  "window xs w i = take w (drop (Suc i - w) xs)"

definition rolling_apply :: "(fl list \<Rightarrow> fl) \<Rightarrow> nat \<Rightarrow> fl list \<Rightarrow> fl list" where
  "rolling_apply f w xs =
     map (\<lambda>i. if w = 0 \<or> Suc i < w \<or> NaN \<in> set (window xs w i) then NaN
              else f (window xs w i)) [0..<length xs]"

definition rolling :: "(fl list \<Rightarrow> fl) \<Rightarrow> int \<Rightarrow> fl list \<Rightarrow> error + fl list" where
  "rolling f w xs = (if w < 0 then Inl ValueError else Inr (rolling_apply f (nat w) xs))"

definition win_mean :: "fl list \<Rightarrow> fl" where
  "win_mean win = fl_div (fl_sum win) (Fin (real (length win)))"

definition win_min :: "fl list \<Rightarrow> fl" where
  "win_min win = (case win of [] \<Rightarrow> NaN | x # rest \<Rightarrow> fold fl_min2 rest x)"

definition win_max :: "fl list \<Rightarrow> fl" where
  "win_max win = (case win of [] \<Rightarrow> NaN | x # rest \<Rightarrow> fold fl_max2 rest x)"

text \<open>
  \<^verbatim>\<open>rolling(...).std()\<close> is the sample standard deviation (\<^verbatim>\<open>ddof = 1\<close>): the sum
  of the squared deviations from the window mean is divided by the number of observations
  minus one, so a window of one observation has no standard deviation.
\<close>

definition win_std :: "fl list \<Rightarrow> fl" where
  "win_std win =
     (let n = length win; vals = map fin_val win; m = sum_list vals / real n
      in if n < 2 \<or> \<not> list_all is_fin win then NaN
         else Fin (sqrt (sum_list (map (\<lambda>v. (v - m) ^ 2) vals) / real (n - 1))))"

definition rolling_mean :: "int \<Rightarrow> fl list \<Rightarrow> error + fl list" where
  "rolling_mean w xs = rolling win_mean w xs"

definition rolling_std :: "int \<Rightarrow> fl list \<Rightarrow> error + fl list" where
  "rolling_std w xs = rolling win_std w xs"

definition rolling_min :: "int \<Rightarrow> fl list \<Rightarrow> error + fl list" where
  "rolling_min w xs = rolling win_min w xs"

definition rolling_max :: "int \<Rightarrow> fl list \<Rightarrow> error + fl list" where
  "rolling_max w xs = rolling win_max w xs"

text \<open>\<^verbatim>\<open>Series.diff()\<close> and \<^verbatim>\<open>Series.shift()\<close>: the first entry is not-a-number.\<close>

definition diff :: "fl list \<Rightarrow> fl list" where
  "diff xs = (case xs of [] \<Rightarrow> [] | x # rest \<Rightarrow> NaN # map (\<lambda>(p, c). fl_sub c p) (zip xs rest))"

definition shift :: "fl list \<Rightarrow> fl list" where
  "shift xs = (case xs of [] \<Rightarrow> [] | x # rest \<Rightarrow> NaN # butlast xs)"

text \<open>
  \<^verbatim>\<open>Series.ewm(span=s, adjust=False).mean()\<close>: the smoothing factor is
  \<open>2 / (s + 1)\<close>, the first output is the first input and every later output is
  \<open>(1 - \<alpha>) * previous + \<alpha> * current\<close>. A span below 1 raises ValueError. A
  not-a-number input repeats the previous output and ages its weight.
\<close>

fun ewm_loop :: "real \<Rightarrow> fl \<Rightarrow> real \<Rightarrow> fl list \<Rightarrow> fl list" where
  "ewm_loop alpha weighted old_wt [] = []"
| "ewm_loop alpha weighted old_wt (cur # rest) =
     (if weighted \<noteq> NaN then
        (if cur \<noteq> NaN then
           (let ow = old_wt * (1 - alpha);
                w' = fl_div (fl_add (fl_mul (Fin ow) weighted) (fl_mul (Fin alpha) cur))
                       (Fin (ow + alpha))
            in w' # ewm_loop alpha w' 1 rest)
         else weighted # ewm_loop alpha weighted (old_wt * (1 - alpha)) rest)
      else cur # ewm_loop alpha cur old_wt rest)"

definition ewm_mean :: "int \<Rightarrow> fl list \<Rightarrow> error + fl list" where
  "ewm_mean sp xs =
     (if sp < 1 then Inl ValueError
      else Inr (case xs of [] \<Rightarrow> []
                | x # rest \<Rightarrow> x # ewm_loop (2 / (real_of_int sp + 1)) x 1 rest))"

text \<open>
  \<^verbatim>\<open>DataFrame.max(axis=1)\<close> skips not-a-number: the row maximum is the largest of the
  numbers present, and not-a-number only when none is.
\<close>

definition fl_nanmax :: "fl list \<Rightarrow> fl" where
  "fl_nanmax xs =
     (case filter (\<lambda>x. x \<noteq> NaN) xs of [] \<Rightarrow> NaN | y # ys \<Rightarrow> fold fl_max2 ys y)"

section \<open>Indicator calculators\<close>

text \<open>
  \<^verbatim>\<open>add_bollinger_bands\<close>, lines 95 to 99: the middle band, the upper band and the
  lower band.
\<close>

definition bollinger_bands :: "dataframe \<Rightarrow> int \<Rightarrow> real \<Rightarrow> error + (fl list \<times> fl list \<times> fl list)" where
  "bollinger_bands data w num_std =
     bind_err (rolling_mean w (col_Close data)) (\<lambda>ma.
     bind_err (rolling_std w (col_Close data)) (\<lambda>std.
       Inr (ma,
            map (\<lambda>(m, s). fl_add m (fl_mul s (Fin num_std))) (zip ma std),
            map (\<lambda>(m, s). fl_sub m (fl_mul s (Fin num_std))) (zip ma std))))"

text \<open>
  \<^verbatim>\<open>calculate_rsi\<close>. \<^verbatim>\<open>delta.where(delta > 0, 0)\<close> keeps the positive changes
  and puts 0 everywhere else, also at position 0 where the change is not-a-number.
\<close>

definition rsi_gain :: "dataframe \<Rightarrow> fl list" where
  "rsi_gain data = map (\<lambda>d. if fl_less (Fin 0) d then d else Fin 0) (diff (col_Close data))"

definition rsi_loss :: "dataframe \<Rightarrow> fl list" where
  "rsi_loss data =
     map (\<lambda>d. fl_neg (if fl_less d (Fin 0) then d else Fin 0)) (diff (col_Close data))"

definition rsi_value :: "fl \<Rightarrow> fl \<Rightarrow> fl" where
  "rsi_value avg_gain avg_loss =
     fl_sub (Fin 100) (fl_div (Fin 100) (fl_add (Fin 1) (fl_div avg_gain avg_loss)))"

definition calculate_rsi :: "dataframe \<Rightarrow> int \<Rightarrow> error + fl list" where
  "calculate_rsi data w =
     bind_err (rolling_mean w (rsi_gain data)) (\<lambda>avg_gain.
     bind_err (rolling_mean w (rsi_loss data)) (\<lambda>avg_loss.
       Inr (map (\<lambda>(g, l). rsi_value g l) (zip avg_gain avg_loss))))"

definition calculate_macd ::
    "dataframe \<Rightarrow> int \<Rightarrow> int \<Rightarrow> int \<Rightarrow> error + (fl list \<times> fl list \<times> fl list)" where
  "calculate_macd data fast_period slow_period signal_period =
     bind_err (ewm_mean fast_period (col_Close data)) (\<lambda>fast_ema.
     bind_err (ewm_mean slow_period (col_Close data)) (\<lambda>slow_ema.
       (let macd_line = map (\<lambda>(f, s). fl_sub f s) (zip fast_ema slow_ema)
        in bind_err (ewm_mean signal_period macd_line) (\<lambda>signal_line.
             Inr (macd_line, signal_line,
                  map (\<lambda>(m, s). fl_sub m s) (zip macd_line signal_line))))))"

definition stochastic_fast_k :: "dataframe \<Rightarrow> fl list \<Rightarrow> fl list \<Rightarrow> fl list" where
  "stochastic_fast_k data low_min high_max =
     map (\<lambda>(c, lo, hi). fl_mul (Fin 100) (fl_div (fl_sub c lo) (fl_sub hi lo)))
       (zip (col_Close data) (zip low_min high_max))"

definition calculate_stochastic ::
    "dataframe \<Rightarrow> int \<Rightarrow> int \<Rightarrow> int \<Rightarrow> error + (fl list \<times> fl list)" where
  "calculate_stochastic data k_period d_period smooth_k =
     bind_err (rolling_min k_period (col_Low data)) (\<lambda>low_min.
     bind_err (rolling_max k_period (col_High data)) (\<lambda>high_max.
     bind_err (rolling_mean smooth_k (stochastic_fast_k data low_min high_max)) (\<lambda>k.
     bind_err (rolling_mean d_period k) (\<lambda>d. Inr (k, d)))))"

definition true_range :: "dataframe \<Rightarrow> fl list" where
  "true_range data =
     (let high_low = map (\<lambda>(h, l). fl_sub h l) (zip (col_High data) (col_Low data));
          high_close = map (\<lambda>(h, c). fl_abs (fl_sub h c)) (zip (col_High data) (shift (col_Close data)));
          low_close = map (\<lambda>(l, c). fl_abs (fl_sub l c)) (zip (col_Low data) (shift (col_Close data)))
      in map (\<lambda>(a, b, c). fl_nanmax [a, b, c]) (zip high_low (zip high_close low_close)))"

definition calculate_atr :: "dataframe \<Rightarrow> int \<Rightarrow> error + fl list" where
  "calculate_atr data w = rolling_mean w (true_range data)"

section \<open>On Balance Volume\<close>

text \<open>
  \<^verbatim>\<open>calculate_on_balance_volume\<close> allocates a float Series over the index of the
  data (all entries not-a-number), stores 0 at position 0, which raises IndexError on an
  empty Series, and fills the other positions from left to right.
\<close>

definition obv_step :: "dataframe \<Rightarrow> fl list \<Rightarrow> nat \<Rightarrow> fl" where
  "obv_step data obv i =
     (if Close (data ! i) > Close (data ! (i - 1))
      then fl_add (obv ! (i - 1)) (Fin (real_of_int (Volume (data ! i))))
      else if Close (data ! i) < Close (data ! (i - 1))
      then fl_sub (obv ! (i - 1)) (Fin (real_of_int (Volume (data ! i))))
      else obv ! (i - 1))"

function obv_loop :: "dataframe \<Rightarrow> nat \<Rightarrow> fl list \<Rightarrow> fl list" where
  "obv_loop data i obv =
     (if i < length data then obv_loop data (Suc i) (obv[i := obv_step data obv i]) else obv)"
  by pat_completeness auto
termination
  by (relation "measure (\<lambda>(data, i, obv). length data - i)") auto

declare obv_loop.simps [simp del]

definition calculate_on_balance_volume :: "dataframe \<Rightarrow> error + fl list" where
  "calculate_on_balance_volume data =
     (if data = [] then Inl IndexError
      else Inr (obv_loop data 1 ((replicate (length data) NaN)[0 := Fin 0])))"

section \<open>Figures\<close>

text \<open>
  A plotly figure is modelled by what the chart builder puts into it: the number of rows
  of the subplot grid, the relative row heights, the traces with the row each one was
  added to, the updates of the y axes and of the x axes (row and title, with the range
  where one is set) and the annotation list, which every \<^verbatim>\<open>update_layout\<close> call
  replaces. Line colours, widths and the legend are not part of the model; the colours of
  bars are.
\<close>

datatype trace =
    CandlestickTrace string "int list" "fl list" "fl list" "fl list" "fl list"
  | BarTrace string "int list" "fl list" "string list"
  | ScatterTrace string "int list" "fl list"

fun trace_name :: "trace \<Rightarrow> string" where
  "trace_name (CandlestickTrace n x op hi lo cl) = n"
| "trace_name (BarTrace n x y cs) = n"
| "trace_name (ScatterTrace n x y) = n"

fun trace_y :: "trace \<Rightarrow> fl list" where
  "trace_y (CandlestickTrace n x op hi lo cl) = cl"
| "trace_y (BarTrace n x y cs) = y"
| "trace_y (ScatterTrace n x y) = y"

record figure =
  rows :: nat
  row_heights :: "real list"
  traces :: "(trace \<times> nat) list"
  yaxes :: "(nat \<times> string \<times> (real \<times> real) option) list"
  xaxes :: "(nat \<times> string) list"
  annotations :: "(string \<times> real) list"

text \<open>
  \<^verbatim>\<open>make_subplots\<close> takes the row heights as relative weights and normalises them:
  every weight is divided by the sum of the weights, and the rows share the height of the
  figure in these proportions (the vertical spacing between the rows is taken off the
  height before it is shared, and is no part of the proportions). The title of the first
  subplot becomes an annotation at the top of the figure.
\<close>

definition normalise_heights :: "real list \<Rightarrow> real list" where
  "normalise_heights heights = map (\<lambda>h. h / sum_list heights) heights"

definition make_subplots :: "nat \<Rightarrow> real list \<Rightarrow> string list \<Rightarrow> figure" where
  "make_subplots n heights subplot_titles =
     \<lparr>rows = n, row_heights = normalise_heights heights, traces = [], yaxes = [], xaxes = [],
      annotations = (case subplot_titles of [] \<Rightarrow> [] | t # rest \<Rightarrow> [(t, 1)])\<rparr>"

definition add_trace :: "figure \<Rightarrow> trace \<Rightarrow> nat \<Rightarrow> figure" where
  "add_trace fig t row = fig\<lparr>traces := traces fig @ [(t, row)]\<rparr>"

definition update_yaxes :: "figure \<Rightarrow> string \<Rightarrow> (real \<times> real) option \<Rightarrow> nat \<Rightarrow> figure" where
  "update_yaxes fig title rng row = fig\<lparr>yaxes := yaxes fig @ [(row, title, rng)]\<rparr>"

definition update_xaxes :: "figure \<Rightarrow> string \<Rightarrow> nat \<Rightarrow> figure" where
  "update_xaxes fig title row = fig\<lparr>xaxes := xaxes fig @ [(row, title)]\<rparr>"

text \<open>Python's formatting of an integer inside an f-string.\<close>

function show_nat :: "nat \<Rightarrow> string" where
  "show_nat n =
     (if n < 10 then [''0123456789'' ! n]
      else show_nat (n div 10) @ [''0123456789'' ! (n mod 10)])"
  by pat_completeness auto
termination
  by (relation "measure id") auto

declare show_nat.simps [simp del]

definition show_int :: "int \<Rightarrow> string" where
  "show_int i = (if i < 0 then CHR ''-'' # show_nat (nat (- i)) else show_nat (nat i))"

text \<open>
  \<^verbatim>\<open>data['Date'].iloc[0]\<close> and \<^verbatim>\<open>data['Date'].iloc[-1]\<close> raise IndexError on a
  DataFrame without rows.
\<close>

definition date_ends :: "dataframe \<Rightarrow> error + int list" where
  "date_ends data =
     (if data = [] then Inl IndexError else Inr [Date (hd data), Date (last data)])"

definition level_line :: "string \<Rightarrow> int list \<Rightarrow> real \<Rightarrow> trace" where
  "level_line n ends v = ScatterTrace n ends [Fin v, Fin v]"

section \<open>Adding indicators to a figure\<close>

definition add_moving_average :: "figure \<Rightarrow> dataframe \<Rightarrow> int \<Rightarrow> nat \<Rightarrow> error + figure" where
  "add_moving_average fig data w row =
     bind_err (rolling_mean w (col_Close data)) (\<lambda>ma.
       Inr (add_trace fig (ScatterTrace (show_int w @ ''-day MA'') (col_Date data) ma) row))"

definition add_exponential_moving_average ::
    "figure \<Rightarrow> dataframe \<Rightarrow> int \<Rightarrow> nat \<Rightarrow> error + figure" where
  "add_exponential_moving_average fig data w row =
     bind_err (ewm_mean w (col_Close data)) (\<lambda>ema.
       Inr (add_trace fig (ScatterTrace (show_int w @ ''-day EMA'') (col_Date data) ema) row))"

definition add_bollinger_bands ::
    "figure \<Rightarrow> dataframe \<Rightarrow> int \<Rightarrow> real \<Rightarrow> nat \<Rightarrow> error + figure" where
  "add_bollinger_bands fig data w num_std row =
     bind_err (bollinger_bands data w num_std) (\<lambda>(ma, upper_band, lower_band).
       (let x = col_Date data;
            fig1 = add_trace fig (ScatterTrace (show_int w @ ''-day MA'') x ma) row;
            fig2 = add_trace fig1 (ScatterTrace ''Upper Band'' x upper_band) row;
            fig3 = add_trace fig2 (ScatterTrace ''Lower Band'' x lower_band) row;
            fig4 = add_trace fig3 (ScatterTrace ''Upper Band'' x upper_band) row;
            fig5 = add_trace fig4 (ScatterTrace ''Lower Band'' x lower_band) row
        in Inr fig5))"

definition add_rsi :: "figure \<Rightarrow> dataframe \<Rightarrow> int \<Rightarrow> nat \<Rightarrow> error + figure" where
  "add_rsi fig data w row =
     bind_err (calculate_rsi data w) (\<lambda>rsi.
       (let fig1 = add_trace fig
                     (ScatterTrace (''RSI ('' @ show_int w @ '')'') (col_Date data) rsi) row
        in bind_err (date_ends data) (\<lambda>ends.
             (let fig2 = add_trace fig1 (level_line ''Overbought'' ends 70) row;
                  fig3 = add_trace fig2 (level_line ''Oversold'' ends 30) row;
                  fig4 = add_trace fig3 (level_line ''Middle'' ends 50) row
              in Inr (update_yaxes fig4 ''RSI'' (Some (0, 100)) row)))))"

definition histogram_colors :: "fl list \<Rightarrow> string list" where
  "histogram_colors histogram =
     map (\<lambda>val. if fl_ge val (Fin 0) then ''#43A047'' else ''#E53935'') histogram"

definition add_macd ::
    "figure \<Rightarrow> dataframe \<Rightarrow> int \<Rightarrow> int \<Rightarrow> int \<Rightarrow> nat \<Rightarrow> error + figure" where
  "add_macd fig data fast_period slow_period signal_period row =
     bind_err (calculate_macd data fast_period slow_period signal_period)
       (\<lambda>(macd_line, signal_line, histogram).
         (let x = col_Date data;
              fig1 = add_trace fig (ScatterTrace ''MACD'' x macd_line) row;
              fig2 = add_trace fig1 (ScatterTrace ''Signal'' x signal_line) row;
              fig3 = add_trace fig2
                       (BarTrace ''Histogram'' x histogram (histogram_colors histogram)) row
          in Inr (update_yaxes fig3 ''MACD'' None row)))"

definition add_stochastic ::
    "figure \<Rightarrow> dataframe \<Rightarrow> int \<Rightarrow> int \<Rightarrow> int \<Rightarrow> nat \<Rightarrow> error + figure" where
  "add_stochastic fig data k_period d_period smooth_k row =
     bind_err (calculate_stochastic data k_period d_period smooth_k) (\<lambda>(k, d).
       (let x = col_Date data;
            fig1 = add_trace fig (ScatterTrace ''%K'' x k) row;
            fig2 = add_trace fig1 (ScatterTrace ''%D'' x d) row
        in bind_err (date_ends data) (\<lambda>ends.
             (let fig3 = add_trace fig2 (level_line ''Overbought'' ends 80) row;
                  fig4 = add_trace fig3 (level_line ''Oversold'' ends 20) row
              in Inr (update_yaxes fig4 ''Stochastic'' (Some (0, 100)) row)))))"

definition add_atr :: "figure \<Rightarrow> dataframe \<Rightarrow> int \<Rightarrow> nat \<Rightarrow> error + figure" where
  "add_atr fig data w row =
     bind_err (calculate_atr data w) (\<lambda>atr.
       (let fig1 = add_trace fig
                     (ScatterTrace (''ATR ('' @ show_int w @ '')'') (col_Date data) atr) row
        in Inr (update_yaxes fig1 ''ATR'' None row)))"

definition add_obv :: "figure \<Rightarrow> dataframe \<Rightarrow> nat \<Rightarrow> error + figure" where
  "add_obv fig data row =
     bind_err (calculate_on_balance_volume data) (\<lambda>obv.
       (let fig1 = add_trace fig (ScatterTrace ''OBV'' (col_Date data) obv) row
        in bind_err (ewm_mean 20 obv) (\<lambda>obv_ema.
             (let fig2 = add_trace fig1 (ScatterTrace ''OBV EMA (20)'' (col_Date data) obv_ema) row
              in Inr (update_yaxes fig2 ''OBV'' None row)))))"

section \<open>The technical chart\<close>

definition subplot_count :: "string list \<Rightarrow> nat" where
  "subplot_count indicators =
     1 + (if ''rsi'' \<in> set indicators then 1 else 0)
       + (if ''macd'' \<in> set indicators then 1 else 0)
       + (if ''stoch'' \<in> set indicators then 1 else 0)
       + (if ''atr'' \<in> set indicators then 1 else 0)
       + (if ''obv'' \<in> set indicators then 1 else 0)"

text \<open>
  The row heights handed to \<^verbatim>\<open>make_subplots\<close>: the price chart gets 0.5, and
  when there are further rows each of them gets an equal share of the remaining 0.5.
\<close>

definition chart_heights :: "nat \<Rightarrow> real list" where
  "chart_heights n =
     [1 / 2] @ (if n > 1 then replicate (n - 1) ((1 / 2) / real (n - 1)) else [])"

definition volume_colors :: "dataframe \<Rightarrow> string list" where
  "volume_colors data = map (\<lambda>b. if Close b \<ge> Open b then ''#26A69A'' else ''#EF5350'') data"

text \<open>
  Each oscillator has a block of the same shape: when its key is in the indicator list,
  the current row is incremented, the indicator is added at that row and the annotation
  list is replaced by one label, placed with \<^verbatim>\<open>heights[current_row - 1]\<close>.
\<close>

definition annotation_y :: "real list \<Rightarrow> nat \<Rightarrow> error + real" where
  "annotation_y heights current_row =
     (if current_row - 1 < length heights
      then Inr (1 - (real current_row - 3 / 2) * heights ! (current_row - 1))
      else Inl IndexError)"

definition oscillator_block ::
    "string \<Rightarrow> string \<Rightarrow> (figure \<Rightarrow> nat \<Rightarrow> error + figure) \<Rightarrow> string list \<Rightarrow> real list \<Rightarrow>
     figure \<times> nat \<Rightarrow> error + figure \<times> nat" where
  "oscillator_block key label add indicators heights st =
     (case st of (fig, current_row) \<Rightarrow>
        if key \<in> set indicators then
          bind_err (add fig (Suc current_row)) (\<lambda>fig'.
          bind_err (annotation_y heights (Suc current_row)) (\<lambda>y.
            Inr (fig'\<lparr>annotations := [(label, y)]\<rparr>, Suc current_row)))
        else Inr (fig, current_row))"

definition overlay_block ::
    "string \<Rightarrow> (figure \<Rightarrow> error + figure) \<Rightarrow> string list \<Rightarrow> figure \<Rightarrow> error + figure" where
  "overlay_block key add indicators fig = (if key \<in> set indicators then add fig else Inr fig)"

definition create_technical_chart :: "dataframe \<Rightarrow> string list option \<Rightarrow> error + figure" where
  "create_technical_chart data indicators_arg =
     (let indicators = (case indicators_arg of None \<Rightarrow> [''sma'', ''ema'', ''bollinger'']
                        | Some l \<Rightarrow> l);
          n = subplot_count indicators;
          heights = chart_heights n;
          fig0 = make_subplots n heights [''Price Chart''];
          fig1 = add_trace fig0
                   (CandlestickTrace ''Price'' (col_Date data) (col_Open data) (col_High data)
                      (col_Low data) (col_Close data)) 1;
          fig2 = add_trace fig1
                   (BarTrace ''Volume'' (col_Date data) (col_Volume data) (volume_colors data)) 1
      in
      bind_err (overlay_block ''sma'' (\<lambda>f.
                  bind_err (add_moving_average f data 50 1) (\<lambda>f'.
                    add_moving_average f' data 200 1)) indicators fig2) (\<lambda>fig3.
      bind_err (overlay_block ''ema'' (\<lambda>f. add_exponential_moving_average f data 20 1)
                  indicators fig3) (\<lambda>fig4.
      bind_err (overlay_block ''bollinger'' (\<lambda>f. add_bollinger_bands f data 20 2 1)
                  indicators fig4) (\<lambda>fig5.
      bind_err (oscillator_block ''rsi'' ''RSI (14)'' (\<lambda>f r. add_rsi f data 14 r)
                  indicators heights (fig5, 1)) (\<lambda>st1.
      bind_err (oscillator_block ''macd'' ''MACD'' (\<lambda>f r. add_macd f data 12 26 9 r)
                  indicators heights st1) (\<lambda>st2.
      bind_err (oscillator_block ''stoch'' ''Stochastic'' (\<lambda>f r. add_stochastic f data 14 3 3 r)
                  indicators heights st2) (\<lambda>st3.
      bind_err (oscillator_block ''atr'' ''ATR (14)'' (\<lambda>f r. add_atr f data 14 r)
                  indicators heights st3) (\<lambda>st4.
      bind_err (oscillator_block ''obv'' ''On Balance Volume'' (\<lambda>f r. add_obv f data r)
                  indicators heights st4) (\<lambda>st5.
        Inr (update_xaxes (update_yaxes (fst st5) ''Price'' None 1) ''Date'' n))))))))))"

section \<open>The manual RSI computation of the scenario\<close>

text \<open>
  The manual gain and loss computation, written from the words of the specification: the
  gains and losses come from the close-to-close changes, position 0 has no change and so
  neither a gain nor a loss, the averages are the window means, RS is the average gain
  over the average loss and the RSI is 100 - 100 / (1 + RS).
\<close>

definition manual_gain :: "real list \<Rightarrow> nat \<Rightarrow> real" where
  "manual_gain cs j = (if j = 0 then 0 else max (cs ! j - cs ! (j - 1)) 0)"

definition manual_loss :: "real list \<Rightarrow> nat \<Rightarrow> real" where
  "manual_loss cs j = (if j = 0 then 0 else max (- (cs ! j - cs ! (j - 1))) 0)"

definition manual_avg :: "(real list \<Rightarrow> nat \<Rightarrow> real) \<Rightarrow> real list \<Rightarrow> nat \<Rightarrow> nat \<Rightarrow> real" where
  "manual_avg f cs w i = sum_list (map (f cs) [Suc i - w..<Suc i]) / real w"

definition manual_rsi :: "real list \<Rightarrow> nat \<Rightarrow> nat \<Rightarrow> real" where
  "manual_rsi cs w i =
     (let rs = manual_avg manual_gain cs w i / manual_avg manual_loss cs w i
      in 100 - 100 / (1 + rs))"

section \<open>Observations on figures\<close>

text \<open>
  What the theorems about the chart read off a figure: for every trace its name, the
  length of its series and its row, and for every y axis update its title and its row.
\<close>

definition trace_info :: "figure \<Rightarrow> (string \<times> nat \<times> nat) list" where
  "trace_info fig = map (\<lambda>(t, r). (trace_name t, length (trace_y t), r)) (traces fig)"

definition axis_rows :: "figure \<Rightarrow> (string \<times> nat) list" where
  "axis_rows fig = map (\<lambda>(r, title, rng). (title, r)) (yaxes fig)"

text \<open>
  \<open>adds fig fig' infos axes row\<close>: the figure \<open>fig'\<close> is \<open>fig\<close> with further traces
  and y axis updates, all at \<open>row\<close>, and the same subplot grid.
\<close>

definition adds :: "figure \<Rightarrow> figure \<Rightarrow> (string \<times> nat) list \<Rightarrow> string list \<Rightarrow> nat \<Rightarrow> bool" where
  "adds fig fig' infos axes row \<longleftrightarrow>
     rows fig' = rows fig \<and> row_heights fig' = row_heights fig \<and> xaxes fig' = xaxes fig \<and>
     trace_info fig' = trace_info fig @ map (\<lambda>(n, l). (n, l, row)) infos \<and>
     axis_rows fig' = axis_rows fig @ map (\<lambda>t. (t, row)) axes"

text \<open>
  The layout that \<^verbatim>\<open>create_technical_chart\<close> produces, as the theorems state it.
  The oscillator blocks of the function come in the fixed order RSI, MACD, stochastic,
  ATR, OBV, and each requested one takes the next row: the row of an oscillator is 2 plus
  the number of requested oscillators in front of it in that order.
\<close>

definition oscillator_order :: "string list" where
  "oscillator_order = [''rsi'', ''macd'', ''stoch'', ''atr'', ''obv'']"

definition osc_row :: "string list \<Rightarrow> string \<Rightarrow> nat" where
  "osc_row indicators key =
     2 + length (filter (\<lambda>k. k \<in> set indicators) (takeWhile (\<lambda>k. k \<noteq> key) oscillator_order))"

definition overlay_info :: "nat \<Rightarrow> (string \<times> (string \<times> nat) list) list" where
  "overlay_info n =
     [(''sma'', [(''50-day MA'', n), (''200-day MA'', n)]),
      (''ema'', [(''20-day EMA'', n)]),
      (''bollinger'', [(''20-day MA'', n), (''Upper Band'', n), (''Lower Band'', n),
                       (''Upper Band'', n), (''Lower Band'', n)])]"

definition oscillator_info :: "nat \<Rightarrow> (string \<times> string \<times> (string \<times> nat) list) list" where
  "oscillator_info n =
     [(''rsi'', ''RSI'',
         [(''RSI (14)'', n), (''Overbought'', 2), (''Oversold'', 2), (''Middle'', 2)]),
      (''macd'', ''MACD'', [(''MACD'', n), (''Signal'', n), (''Histogram'', n)]),
      (''stoch'', ''Stochastic'',
         [(''%K'', n), (''%D'', n), (''Overbought'', 2), (''Oversold'', 2)]),
      (''atr'', ''ATR'', [(''ATR (14)'', n)]),
      (''obv'', ''OBV'', [(''OBV'', n), (''OBV EMA (20)'', n)])]"

definition chart_trace_info :: "nat \<Rightarrow> string list \<Rightarrow> (string \<times> nat \<times> nat) list" where
  "chart_trace_info n indicators =
     [(''Price'', n, 1), (''Volume'', n, 1)] @
     concat (map (\<lambda>(key, infos).
                    if key \<in> set indicators then map (\<lambda>(nm, l). (nm, l, 1)) infos else [])
               (overlay_info n)) @
     concat (map (\<lambda>(key, title, infos).
                    if key \<in> set indicators
                    then map (\<lambda>(nm, l). (nm, l, osc_row indicators key)) infos else [])
               (oscillator_info n))"

definition chart_axis_rows :: "string list \<Rightarrow> (string \<times> nat) list" where
  "chart_axis_rows indicators =
     concat (map (\<lambda>(key, title, infos).
                    if key \<in> set indicators then [(title, osc_row indicators key)] else [])
               (oscillator_info 0)) @
     [(''Price'', 1)]"

text \<open>
  The allocation the specification describes: the oscillators in the order of the
  request, the first one at panel 1, which is row 2.
\<close>

definition request_order_row :: "string list \<Rightarrow> string \<Rightarrow> nat" where
  "request_order_row indicators key =
     2 + length (takeWhile (\<lambda>k. k \<noteq> key)
                  (remdups (filter (\<lambda>k. k \<in> set oscillator_order) indicators)))"

section \<open>Example inputs\<close>

definition demo_bars :: dataframe where
  "demo_bars =
     [\<lparr>Date = 1, Open = 100, High = 101, Low = 99, Close = 100, Volume = 1000\<rparr>,
      \<lparr>Date = 2, Open = 100, High = 102, Low = 100, Close = 101, Volume = 1200\<rparr>,
      \<lparr>Date = 3, Open = 101, High = 101, Low = 98, Close = 99, Volume = 900\<rparr>]"

definition flat_bars :: dataframe where
  "flat_bars =
     [\<lparr>Date = 1, Open = 5, High = 5, Low = 5, Close = 5, Volume = 100\<rparr>,
      \<lparr>Date = 2, Open = 5, High = 5, Low = 5, Close = 5, Volume = 150\<rparr>,
      \<lparr>Date = 3, Open = 5, High = 5, Low = 5, Close = 5, Volume = 120\<rparr>]"

definition rising_bars :: dataframe where
  "rising_bars =
     [\<lparr>Date = 1, Open = 1, High = 2, Low = 1, Close = 1, Volume = 100\<rparr>,
      \<lparr>Date = 2, Open = 1, High = 3, Low = 1, Close = 2, Volume = 150\<rparr>,
      \<lparr>Date = 3, Open = 2, High = 4, Low = 2, Close = 3, Volume = 120\<rparr>]"

definition scenario_closes :: "real list" where
  "scenario_closes =
     [100, 101, 99, 102, 103, 101, 104, 105, 103, 106,
      107, 105, 108, 109, 107, 110, 111, 109, 112, 113,
      111, 114, 115, 113, 116, 117, 115, 118, 119, 117]"

definition scenario_bars :: dataframe where
  "scenario_bars =
     map (\<lambda>(d, c). \<lparr>Date = int d, Open = c, High = c + 1, Low = c - 1, Close = c, Volume = 1000\<rparr>)
       (enumerate 1 scenario_closes)"

section \<open>Basic facts about the primitives\<close>

lemma bind_err_Inl: "bind_err (Inl e) f = Inl e"
  by (simp add: bind_err_def)

lemma bind_err_Inr: "bind_err (Inr v) f = f v"
  by (simp add: bind_err_def)

lemma bind_err_eq_Inr:
  "bind_err m f = Inr r \<longleftrightarrow> (\<exists>v. m = Inr v \<and> f v = Inr r)"
  by (cases m) (simp_all add: bind_err_def)

lemma length_rolling_apply: "length (rolling_apply f w xs) = length xs"
  by (simp add: rolling_apply_def)

lemma nth_rolling_apply:
  "i < length xs \<Longrightarrow>
   rolling_apply f w xs ! i =
     (if w = 0 \<or> Suc i < w \<or> NaN \<in> set (window xs w i) then NaN else f (window xs w i))"
  by (simp add: rolling_apply_def)

lemma rolling_eq_Inr: "rolling f w xs = Inr r \<longleftrightarrow> 0 \<le> w \<and> r = rolling_apply f (nat w) xs"
  by (auto simp: rolling_def)

lemma rolling_length: "rolling f w xs = Inr r \<Longrightarrow> length r = length xs"
  by (auto simp: rolling_eq_Inr length_rolling_apply)

lemma rolling_leading_NaN:
  "rolling f w xs = Inr r \<Longrightarrow> i < length xs \<Longrightarrow> int (Suc i) < w \<Longrightarrow> r ! i = NaN"
  by (auto simp: rolling_eq_Inr nth_rolling_apply)

lemma rolling_NaN_in:
  "rolling f w xs = Inr r \<Longrightarrow> i < length xs \<Longrightarrow> xs ! i = NaN \<Longrightarrow> r ! i = NaN"
proof -
  assume a: "rolling f w xs = Inr r" and i: "i < length xs" and n: "xs ! i = NaN"
  have r: "r = rolling_apply f (nat w) xs" using a by (simp add: rolling_eq_Inr)
  show ?thesis
  proof (cases "nat w = 0 \<or> Suc i < nat w")
    case True
    then show ?thesis using r i by (auto simp: nth_rolling_apply)
  next
    case False
    then have w: "0 < nat w" "nat w \<le> Suc i" by auto
    have "window xs (nat w) i ! (nat w - 1) = xs ! i"
      using w i by (simp add: window_def)
    moreover have "nat w - 1 < length (window xs (nat w) i)"
      using w i by (simp add: window_def)
    ultimately have "NaN \<in> set (window xs (nat w) i)"
      using n by (metis nth_mem)
    then show ?thesis using r i by (simp add: nth_rolling_apply)
  qed
qed

lemma length_ewm_loop: "length (ewm_loop alpha weighted old_wt xs) = length xs"
  by (induction xs arbitrary: weighted old_wt) (simp_all add: Let_def)

lemma ewm_mean_eq_Inr:
  "ewm_mean sp xs = Inr r \<longleftrightarrow>
     1 \<le> sp \<and> r = (case xs of [] \<Rightarrow> []
                    | x # rest \<Rightarrow> x # ewm_loop (2 / (real_of_int sp + 1)) x 1 rest)"
  by (auto simp: ewm_mean_def)

lemma ewm_mean_length: "ewm_mean sp xs = Inr r \<Longrightarrow> length r = length xs"
  by (cases xs) (auto simp: ewm_mean_eq_Inr length_ewm_loop)

lemma length_diff: "length (diff xs) = length xs"
  by (cases xs) (simp_all add: diff_def)

lemma length_shift: "length (shift xs) = length xs"
  by (cases xs) (simp_all add: shift_def)

lemma length_cols:
  "length (col_Date data) = length data"
  "length (col_Open data) = length data"
  "length (col_High data) = length data"
  "length (col_Low data) = length data"
  "length (col_Close data) = length data"
  "length (col_Volume data) = length data"
  by (simp_all add: col_Date_def col_Open_def col_High_def col_Low_def col_Close_def
      col_Volume_def)

lemma length_rsi_gain: "length (rsi_gain data) = length data"
  by (simp add: rsi_gain_def length_diff length_cols)

lemma length_rsi_loss: "length (rsi_loss data) = length data"
  by (simp add: rsi_loss_def length_diff length_cols)

lemma length_true_range: "length (true_range data) = length data"
  by (simp add: true_range_def Let_def length_shift length_cols)

lemma length_stochastic_fast_k:
  "length low_min = length data \<Longrightarrow> length high_max = length data \<Longrightarrow>
   length (stochastic_fast_k data low_min high_max) = length data"
  by (simp add: stochastic_fast_k_def length_cols)

lemma fl_sum_Fin: "fl_sum (map Fin vs) = Fin (sum_list vs)"
  by (induction vs) (simp_all add: fl_sum_def)

lemma NaN_notin_Fin: "NaN \<notin> set (map Fin vs)"
  by auto

lemma win_mean_Fin: "vs \<noteq> [] \<Longrightarrow> win_mean (map Fin vs) = Fin (sum_list vs / real (length vs))"
  by (simp add: win_mean_def fl_sum_Fin)

lemma window_map: "window (map f ys) w i = map f (take w (drop (Suc i - w) ys))"
  by (simp add: window_def take_map drop_map)

lemma length_take_drop_window:
  "0 < w \<Longrightarrow> w \<le> Suc i \<Longrightarrow> i < length ys \<Longrightarrow> length (take w (drop (Suc i - w) ys)) = w"
  by simp

lemma fold_min_Fin: "fold fl_min2 (map Fin vs) (Fin a) = Fin (fold min vs a)"
  by (induction vs arbitrary: a) (auto simp: fl_min2_def min_def)

lemma fold_max_Fin: "fold fl_max2 (map Fin vs) (Fin a) = Fin (fold max vs a)"
  by (induction vs arbitrary: a) (auto simp: fl_max2_def max_def)

lemma fold_min_le: "fold min vs a \<le> (a::real) \<and> (\<forall>v\<in>set vs. fold min vs a \<le> v)"
proof (induction vs arbitrary: a)
  case Nil
  then show ?case by simp
next
  case (Cons v vs)
  have "fold min vs (min v a) \<le> min v a" using Cons.IH by blast
  then show ?case using Cons.IH [of "min v a"] by auto
qed

lemma fold_max_ge: "(a::real) \<le> fold max vs a \<and> (\<forall>v\<in>set vs. v \<le> fold max vs a)"
proof (induction vs arbitrary: a)
  case Nil
  then show ?case by simp
next
  case (Cons v vs)
  have "max v a \<le> fold max vs (max v a)" using Cons.IH by blast
  then show ?case using Cons.IH [of "max v a"] by auto
qed

lemma win_min_Fin:
  "vs \<noteq> [] \<Longrightarrow> \<exists>m. win_min (map Fin vs) = Fin m \<and> (\<forall>v\<in>set vs. m \<le> v)"
proof (cases vs)
  case Nil
  assume "vs \<noteq> []"
  then show ?thesis using Nil by simp
next
  case (Cons a rest)
  have "win_min (map Fin vs) = Fin (fold min rest a)"
    using Cons by (simp add: win_min_def fold_min_Fin)
  then show ?thesis using Cons fold_min_le [of rest a] by auto
qed

lemma win_max_Fin:
  "vs \<noteq> [] \<Longrightarrow> \<exists>m. win_max (map Fin vs) = Fin m \<and> (\<forall>v\<in>set vs. v \<le> m)"
proof (cases vs)
  case Nil
  assume "vs \<noteq> []"
  then show ?thesis using Nil by simp
next
  case (Cons a rest)
  have "win_max (map Fin vs) = Fin (fold max rest a)"
    using Cons by (simp add: win_max_def fold_max_Fin)
  then show ?thesis using Cons fold_max_ge [of a rest] by auto
qed

section \<open>Properties of On Balance Volume\<close>

lemma length_obv_loop: "length (obv_loop data i obv) = length obv"
proof (induction data i obv rule: obv_loop.induct)
  case (1 data i obv)
  show ?case
  proof (cases "i < length data")
    case True
    then show ?thesis using "1" by (subst obv_loop.simps) simp
  next
    case False
    then show ?thesis by (subst obv_loop.simps) simp
  qed
qed

lemma obv_loop_before: "j < i \<Longrightarrow> obv_loop data i obv ! j = obv ! j"
proof (induction data i obv rule: obv_loop.induct)
  case (1 data i obv)
  show ?case
  proof (cases "i < length data")
    case True
    have "obv_loop data i obv ! j = obv_loop data (Suc i) (obv[i := obv_step data obv i]) ! j"
      using True by (subst obv_loop.simps) simp
    also have "\<dots> = (obv[i := obv_step data obv i]) ! j"
      using "1.IH" [OF True] "1.prems" by simp
    also have "\<dots> = obv ! j"
      using "1.prems" by simp
    finally show ?thesis .
  next
    case False
    then show ?thesis by (subst obv_loop.simps) simp
  qed
qed

lemma obv_step_cong:
  "0 < i \<Longrightarrow> obv ! (i - 1) = obv' ! (i - 1) \<Longrightarrow> obv_step data obv i = obv_step data obv' i"
  by (simp add: obv_step_def)

lemma obv_loop_at:
  "0 < i \<Longrightarrow> i \<le> j \<Longrightarrow> j < length data \<Longrightarrow> length obv = length data \<Longrightarrow>
   obv_loop data i obv ! j = obv_step data (obv_loop data i obv) j"
proof (induction data i obv rule: obv_loop.induct)
  case (1 data i obv)
  let ?obv' = "obv[i := obv_step data obv i]"
  have lt: "i < length data" using "1.prems" by simp
  have unf: "obv_loop data i obv = obv_loop data (Suc i) ?obv'"
    using lt by (subst obv_loop.simps) simp
  show ?case
  proof (cases "i = j")
    case True
    have a: "obv_loop data (Suc i) ?obv' ! j = ?obv' ! j"
      using True by (simp add: obv_loop_before)
    have b: "?obv' ! j = obv_step data obv j"
      using True lt "1.prems" by simp
    have c: "obv_loop data (Suc i) ?obv' ! (j - 1) = obv ! (j - 1)"
      using True "1.prems" by (simp add: obv_loop_before)
    have "obv_step data obv j = obv_step data (obv_loop data (Suc i) ?obv') j"
      using c "1.prems" True by (intro obv_step_cong) simp_all
    then show ?thesis using a b unf by simp
  next
    case False
    then have "Suc i \<le> j" using "1.prems" by simp
    then show ?thesis
      using "1.IH" [OF lt] "1.prems" unf by simp
  qed
qed

lemma obv_loop_is_fin:
  "0 < i \<Longrightarrow> length obv = length data \<Longrightarrow> \<forall>j<i. is_fin (obv ! j) \<Longrightarrow>
   j < length data \<Longrightarrow> is_fin (obv_loop data i obv ! j)"
proof (induction data i obv arbitrary: j rule: obv_loop.induct)
  case (1 data i obv)
  show ?case
  proof (cases "i < length data")
    case True
    let ?obv' = "obv[i := obv_step data obv i]"
    have prev: "is_fin (obv ! (i - 1))" using "1.prems" by simp
    then obtain a where a: "obv ! (i - 1) = Fin a" by (cases "obv ! (i - 1)") simp_all
    have step: "is_fin (obv_step data obv i)"
      using a by (simp add: obv_step_def fl_sub_def)
    have "\<forall>j<Suc i. is_fin (?obv' ! j)"
      using "1.prems" True step by (auto simp: nth_list_update less_Suc_eq)
    then have "is_fin (obv_loop data (Suc i) ?obv' ! j)"
      using "1.IH" [OF True, of j] "1.prems" by simp
    then show ?thesis using True by (subst obv_loop.simps) simp
  next
    case False
    then show ?thesis using "1.prems" by (subst obv_loop.simps) simp
  qed
qed

text \<open>
  Claim C8. For every non-empty input the function returns a series whose entry 0 is 0,
  and every later entry is the previous entry plus the bar's volume when the close rose,
  the previous entry minus the bar's volume when the close fell, and the previous entry
  when the close is unchanged.
\<close>

theorem obv_recurrence:
  "data \<noteq> [] \<Longrightarrow>
   (\<exists>obv. calculate_on_balance_volume data = Inr obv \<and> length obv = length data \<and>
      obv ! 0 = Fin 0 \<and>
      (\<forall>i. 1 \<le> i \<and> i < length data \<longrightarrow>
         (Close (data ! i) > Close (data ! (i - 1)) \<longrightarrow>
            obv ! i = fl_add (obv ! (i - 1)) (Fin (real_of_int (Volume (data ! i))))) \<and>
         (Close (data ! i) < Close (data ! (i - 1)) \<longrightarrow>
            obv ! i = fl_sub (obv ! (i - 1)) (Fin (real_of_int (Volume (data ! i))))) \<and>
         (Close (data ! i) = Close (data ! (i - 1)) \<longrightarrow> obv ! i = obv ! (i - 1))))"
proof -
  assume ne: "data \<noteq> []"
  let ?init = "(replicate (length data) NaN)[0 := Fin 0]"
  let ?obv = "obv_loop data 1 ?init"
  have res: "calculate_on_balance_volume data = Inr ?obv"
    using ne by (simp add: calculate_on_balance_volume_def)
  have len: "length ?obv = length data" by (simp add: length_obv_loop)
  have zero: "?obv ! 0 = Fin 0"
    using ne by (simp add: obv_loop_before)
  have rec: "\<And>i. 1 \<le> i \<Longrightarrow> i < length data \<Longrightarrow> ?obv ! i = obv_step data ?obv i"
    by (rule obv_loop_at) simp_all
  show ?thesis
    using res len zero rec by (auto simp: obv_step_def)
qed

theorem obv_recurrence_witness:
  "demo_bars \<noteq> [] \<and>
   (\<exists>obv. calculate_on_balance_volume demo_bars = Inr obv \<and> length obv = 3 \<and>
      obv ! 0 = Fin 0 \<and> obv ! 1 = fl_add (obv ! 0) (Fin 1200) \<and>
      obv ! 2 = fl_sub (obv ! 1) (Fin 900))"
proof -
  have ne: "demo_bars \<noteq> []" by (simp add: demo_bars_def)
  from obv_recurrence [OF ne] obtain obv where
    r: "calculate_on_balance_volume demo_bars = Inr obv" and
    l: "length obv = length demo_bars" and
    z: "obv ! 0 = Fin 0" and
    s: "\<forall>i. 1 \<le> i \<and> i < length demo_bars \<longrightarrow>
         (Close (demo_bars ! i) > Close (demo_bars ! (i - 1)) \<longrightarrow>
            obv ! i = fl_add (obv ! (i - 1)) (Fin (real_of_int (Volume (demo_bars ! i))))) \<and>
         (Close (demo_bars ! i) < Close (demo_bars ! (i - 1)) \<longrightarrow>
            obv ! i = fl_sub (obv ! (i - 1)) (Fin (real_of_int (Volume (demo_bars ! i))))) \<and>
         (Close (demo_bars ! i) = Close (demo_bars ! (i - 1)) \<longrightarrow> obv ! i = obv ! (i - 1))"
    by blast
  have s1: "obv ! 1 = fl_add (obv ! 0) (Fin 1200)"
    using s [rule_format, of 1] by (simp add: demo_bars_def)
  have s2: "obv ! 2 = fl_sub (obv ! 1) (Fin 900)"
    using s [rule_format, of 2] by (simp add: demo_bars_def)
  have l3: "length obv = 3" using l by (simp add: demo_bars_def)
  show ?thesis using ne r l3 z s1 s2 by blast
qed

section \<open>Alignment of the indicator outputs\<close>

lemma fl_add_NaN_right: "fl_add x NaN = NaN"
  by (cases x) simp_all

lemma fl_sub_NaN_right: "fl_sub x NaN = NaN"
  by (simp add: fl_sub_def fl_add_NaN_right)

lemma fl_sub_NaN_left: "fl_sub NaN x = NaN"
  by (simp add: fl_sub_def)

lemma fl_mul_NaN_right: "fl_mul x NaN = NaN"
  by (cases x) simp_all

lemma fl_div_NaN_right: "fl_div x NaN = NaN"
  by (cases x) simp_all

lemma rsi_value_NaN: "rsi_value NaN l = NaN"
  by (simp add: rsi_value_def fl_add_NaN_right fl_div_NaN_right fl_sub_NaN_right)

lemma rolling_mean_length: "rolling_mean w xs = Inr r \<Longrightarrow> length r = length xs"
  unfolding rolling_mean_def by (rule rolling_length)

lemma sma_aligned:
  "rolling_mean w (col_Close data) = Inr r \<Longrightarrow>
   length r = length data \<and> (\<forall>i<length data. int (Suc i) < w \<longrightarrow> r ! i = NaN)"
  unfolding rolling_mean_def
  using rolling_length [of win_mean w "col_Close data" r]
    rolling_leading_NaN [of win_mean w "col_Close data" r]
  by (simp add: length_cols)

lemma bollinger_eq_Inr:
  "bollinger_bands data w k = Inr (ma, up, lo) \<longleftrightarrow>
     (\<exists>std. rolling_mean w (col_Close data) = Inr ma \<and> rolling_std w (col_Close data) = Inr std \<and>
        up = map (\<lambda>(m, s). fl_add m (fl_mul s (Fin k))) (zip ma std) \<and>
        lo = map (\<lambda>(m, s). fl_sub m (fl_mul s (Fin k))) (zip ma std))"
  by (auto simp: bollinger_bands_def bind_err_eq_Inr)

lemma bollinger_aligned:
  assumes "bollinger_bands data w k = Inr (ma, up, lo)"
  shows "length ma = length data \<and> length up = length data \<and> length lo = length data \<and>
         (\<forall>i<length data. int (Suc i) < w \<longrightarrow> ma ! i = NaN \<and> up ! i = NaN \<and> lo ! i = NaN)"
proof -
  from assms obtain std where
    ma: "rolling_mean w (col_Close data) = Inr ma" and
    std: "rolling_std w (col_Close data) = Inr std" and
    up: "up = map (\<lambda>(m, s). fl_add m (fl_mul s (Fin k))) (zip ma std)" and
    lo: "lo = map (\<lambda>(m, s). fl_sub m (fl_mul s (Fin k))) (zip ma std)"
    by (auto simp: bollinger_eq_Inr)
  have lma: "length ma = length data"
    using ma by (simp add: rolling_mean_def rolling_length length_cols)
  have lstd: "length std = length data"
    using std by (simp add: rolling_std_def rolling_length length_cols)
  have lead: "ma ! i = NaN \<and> up ! i = NaN \<and> lo ! i = NaN"
    if "i < length data" "int (Suc i) < w" for i
  proof -
    have m: "ma ! i = NaN"
      using ma that by (simp add: rolling_mean_def rolling_leading_NaN length_cols)
    show ?thesis using m that lma lstd by (simp add: up lo fl_sub_NaN_left)
  qed
  have lup: "length up = length data" using lma lstd by (simp add: up)
  have llo: "length lo = length data" using lma lstd by (simp add: lo)
  show ?thesis using lma lup llo lead by blast
qed

lemma calculate_rsi_eq_Inr:
  "calculate_rsi data w = Inr r \<longleftrightarrow>
     (\<exists>avg_gain avg_loss. rolling_mean w (rsi_gain data) = Inr avg_gain \<and>
        rolling_mean w (rsi_loss data) = Inr avg_loss \<and>
        r = map (\<lambda>(g, l). rsi_value g l) (zip avg_gain avg_loss))"
  by (auto simp: calculate_rsi_def bind_err_eq_Inr)

lemma rsi_aligned:
  assumes "calculate_rsi data w = Inr r"
  shows "length r = length data \<and> (\<forall>i<length data. int (Suc i) < w \<longrightarrow> r ! i = NaN)"
proof -
  from assms obtain avg_gain avg_loss where
    g: "rolling_mean w (rsi_gain data) = Inr avg_gain" and
    l: "rolling_mean w (rsi_loss data) = Inr avg_loss" and
    r: "r = map (\<lambda>(g, l). rsi_value g l) (zip avg_gain avg_loss)"
    by (auto simp: calculate_rsi_eq_Inr)
  have lg: "length avg_gain = length data"
    using g by (simp add: rolling_mean_def rolling_length length_rsi_gain)
  have ll: "length avg_loss = length data"
    using l by (simp add: rolling_mean_def rolling_length length_rsi_loss)
  have lead: "r ! i = NaN" if "i < length data" "int (Suc i) < w" for i
  proof -
    have "avg_gain ! i = NaN"
      using g that by (simp add: rolling_mean_def rolling_leading_NaN length_rsi_gain)
    then show ?thesis using that lg ll by (simp add: r rsi_value_NaN)
  qed
  have lr: "length r = length data" using lg ll by (simp add: r)
  show ?thesis using lr lead by blast
qed

lemma calculate_macd_eq_Inr:
  "calculate_macd data fp slp sgp = Inr (m, s, h) \<longleftrightarrow>
     (\<exists>fast_ema slow_ema. ewm_mean fp (col_Close data) = Inr fast_ema \<and>
        ewm_mean slp (col_Close data) = Inr slow_ema \<and>
        m = map (\<lambda>(f, s). fl_sub f s) (zip fast_ema slow_ema) \<and>
        ewm_mean sgp m = Inr s \<and>
        h = map (\<lambda>(m, s). fl_sub m s) (zip m s))"
  by (auto simp: calculate_macd_def bind_err_eq_Inr Let_def)

lemma macd_aligned:
  assumes "calculate_macd data fp slp sgp = Inr (m, s, h)"
  shows "length m = length data \<and> length s = length data \<and> length h = length data"
proof -
  from assms obtain fast_ema slow_ema where
    f: "ewm_mean fp (col_Close data) = Inr fast_ema" and
    sl: "ewm_mean slp (col_Close data) = Inr slow_ema" and
    m: "m = map (\<lambda>(f, s). fl_sub f s) (zip fast_ema slow_ema)" and
    s: "ewm_mean sgp m = Inr s" and
    h: "h = map (\<lambda>(m, s). fl_sub m s) (zip m s)"
    by (auto simp: calculate_macd_eq_Inr)
  have lf: "length fast_ema = length data" using ewm_mean_length [OF f] by (simp add: length_cols)
  have lsl: "length slow_ema = length data" using ewm_mean_length [OF sl] by (simp add: length_cols)
  have lm: "length m = length data" using lf lsl by (simp add: m)
  have ls: "length s = length data" using ewm_mean_length [OF s] lm by simp
  have lh: "length h = length data" using lm ls by (simp add: h)
  show ?thesis using lm ls lh by simp
qed

lemma calculate_stochastic_eq_Inr:
  "calculate_stochastic data kp dp sk = Inr (k, d) \<longleftrightarrow>
     (\<exists>low_min high_max. rolling_min kp (col_Low data) = Inr low_min \<and>
        rolling_max kp (col_High data) = Inr high_max \<and>
        rolling_mean sk (stochastic_fast_k data low_min high_max) = Inr k \<and>
        rolling_mean dp k = Inr d)"
  by (auto simp: calculate_stochastic_def bind_err_eq_Inr)

lemma stochastic_aligned:
  assumes "calculate_stochastic data kp dp sk = Inr (k, d)"
  shows "length k = length data \<and> length d = length data \<and>
         (\<forall>i<length data. int (Suc i) < kp \<longrightarrow> k ! i = NaN \<and> d ! i = NaN)"
proof -
  from assms obtain low_min high_max where
    lo: "rolling_min kp (col_Low data) = Inr low_min" and
    hi: "rolling_max kp (col_High data) = Inr high_max" and
    k: "rolling_mean sk (stochastic_fast_k data low_min high_max) = Inr k" and
    d: "rolling_mean dp k = Inr d"
    by (auto simp: calculate_stochastic_eq_Inr)
  have llo: "length low_min = length data"
    using lo by (simp add: rolling_min_def rolling_length length_cols)
  have lhi: "length high_max = length data"
    using hi by (simp add: rolling_max_def rolling_length length_cols)
  have lfk: "length (stochastic_fast_k data low_min high_max) = length data"
    using llo lhi by (rule length_stochastic_fast_k)
  have lk: "length k = length data" using rolling_mean_length [OF k] lfk by simp
  have ld: "length d = length data" using rolling_mean_length [OF d] lk by simp
  have lead: "k ! i = NaN \<and> d ! i = NaN" if "i < length data" "int (Suc i) < kp" for i
  proof -
    have "low_min ! i = NaN"
      using lo that by (simp add: rolling_min_def rolling_leading_NaN length_cols)
    then have "stochastic_fast_k data low_min high_max ! i = NaN"
      using that llo lhi
      by (simp add: stochastic_fast_k_def length_cols fl_sub_NaN_right fl_mul_NaN_right)
    then have ki: "k ! i = NaN"
      using k that lfk by (simp add: rolling_mean_def rolling_NaN_in)
    then have "d ! i = NaN"
      using d that lk by (simp add: rolling_mean_def rolling_NaN_in)
    then show ?thesis using ki by simp
  qed
  show ?thesis using lk ld lead by simp
qed

lemma atr_aligned:
  "calculate_atr data w = Inr r \<Longrightarrow>
   length r = length data \<and> (\<forall>i<length data. int (Suc i) < w \<longrightarrow> r ! i = NaN)"
  unfolding calculate_atr_def rolling_mean_def
  using rolling_length [of win_mean w "true_range data" r]
    rolling_leading_NaN [of win_mean w "true_range data" r]
  by (simp add: length_true_range)

lemma obv_aligned: "calculate_on_balance_volume data = Inr r \<Longrightarrow> length r = length data"
  by (auto simp: calculate_on_balance_volume_def length_obv_loop split: if_splits)

lemma rolling_returns: "0 \<le> w \<Longrightarrow> \<exists>r. rolling f w xs = Inr r"
  by (simp add: rolling_def)

lemma ewm_mean_returns: "1 \<le> sp \<Longrightarrow> \<exists>r. ewm_mean sp xs = Inr r"
  by (simp add: ewm_mean_def)

lemma bollinger_returns: "0 \<le> w \<Longrightarrow> \<exists>ma up lo. bollinger_bands data w k = Inr (ma, up, lo)"
  by (simp add: bollinger_bands_def rolling_mean_def rolling_std_def rolling_def bind_err_Inr)

lemma rsi_returns: "0 \<le> w \<Longrightarrow> \<exists>r. calculate_rsi data w = Inr r"
  by (simp add: calculate_rsi_def rolling_mean_def rolling_def bind_err_Inr)

lemma macd_returns:
  "1 \<le> fp \<Longrightarrow> 1 \<le> slp \<Longrightarrow> 1 \<le> sgp \<Longrightarrow> \<exists>m s h. calculate_macd data fp slp sgp = Inr (m, s, h)"
  by (simp add: calculate_macd_def ewm_mean_def bind_err_Inr Let_def)

lemma stochastic_returns:
  "0 \<le> kp \<Longrightarrow> 0 \<le> dp \<Longrightarrow> 0 \<le> sk \<Longrightarrow> \<exists>k d. calculate_stochastic data kp dp sk = Inr (k, d)"
  by (simp add: calculate_stochastic_def rolling_mean_def rolling_min_def rolling_max_def
      rolling_def bind_err_Inr)

lemma atr_returns: "0 \<le> w \<Longrightarrow> \<exists>r. calculate_atr data w = Inr r"
  by (simp add: calculate_atr_def rolling_mean_def rolling_def)

lemma obv_returns: "data \<noteq> [] \<Longrightarrow> \<exists>r. calculate_on_balance_volume data = Inr r"
  by (simp add: calculate_on_balance_volume_def)

section \<open>The stochastic oscillator on a flat range\<close>

lemma in_window:
  "0 < w \<Longrightarrow> w \<le> Suc i \<Longrightarrow> i < length ys \<Longrightarrow> ys ! i \<in> set (take w (drop (Suc i - w) ys))"
proof -
  assume w: "0 < w" "w \<le> Suc i" and i: "i < length ys"
  let ?win = "take w (drop (Suc i - w) ys)"
  have "w - 1 < length ?win" using w i by simp
  moreover have "?win ! (w - 1) = ys ! i" using w i by simp
  ultimately show ?thesis by (metis nth_mem)
qed

lemma window_nonempty:
  "0 < w \<Longrightarrow> w \<le> Suc i \<Longrightarrow> i < length ys \<Longrightarrow> take w (drop (Suc i - w) ys) \<noteq> []"
  using in_window [of w i ys] by auto

lemma col_Low_Fin: "col_Low data = map Fin (map Low data)"
  by (simp add: col_Low_def)

lemma col_High_Fin: "col_High data = map Fin (map High data)"
  by (simp add: col_High_def)

lemma col_Close_Fin: "col_Close data = map Fin (map Close data)"
  by (simp add: col_Close_def)

lemma rolling_min_low_at:
  assumes "rolling_min kp (col_Low data) = Inr low_min" "i < length data"
  shows "low_min ! i = NaN \<or> (\<exists>m. low_min ! i = Fin m \<and> m \<le> Low (data ! i))"
proof -
  have r: "low_min = rolling_apply win_min (nat kp) (col_Low data)"
    using assms(1) by (simp add: rolling_min_def rolling_eq_Inr)
  show ?thesis
  proof (cases "nat kp = 0 \<or> Suc i < nat kp")
    case True
    then show ?thesis using r assms(2) by (auto simp: nth_rolling_apply length_cols)
  next
    case False
    then have w: "0 < nat kp" "nat kp \<le> Suc i" by auto
    let ?vs = "take (nat kp) (drop (Suc i - nat kp) (map Low data))"
    have win: "window (col_Low data) (nat kp) i = map Fin ?vs"
      unfolding col_Low_Fin by (rule window_map)
    have ne: "?vs \<noteq> []" using window_nonempty [OF w] assms(2) by simp
    have mem: "Low (data ! i) \<in> set ?vs"
      using in_window [OF w, of "map Low data"] assms(2) by simp
    from win_min_Fin [OF ne] obtain m where
      m: "win_min (map Fin ?vs) = Fin m" "\<forall>v\<in>set ?vs. m \<le> v" by blast
    have nn: "NaN \<notin> set (window (col_Low data) (nat kp) i)"
      unfolding win by auto
    have "rolling_apply win_min (nat kp) (col_Low data) ! i = win_min (window (col_Low data) (nat kp) i)"
      using nth_rolling_apply [of i "col_Low data" win_min "nat kp"] w nn assms(2)
      by (simp add: length_cols)
    then have "low_min ! i = Fin m"
      using r win m(1) by simp
    then show ?thesis using m(2) mem by blast
  qed
qed

lemma rolling_max_high_at:
  assumes "rolling_max kp (col_High data) = Inr high_max" "i < length data"
  shows "high_max ! i = NaN \<or> (\<exists>m. high_max ! i = Fin m \<and> High (data ! i) \<le> m)"
proof -
  have r: "high_max = rolling_apply win_max (nat kp) (col_High data)"
    using assms(1) by (simp add: rolling_max_def rolling_eq_Inr)
  show ?thesis
  proof (cases "nat kp = 0 \<or> Suc i < nat kp")
    case True
    then show ?thesis using r assms(2) by (auto simp: nth_rolling_apply length_cols)
  next
    case False
    then have w: "0 < nat kp" "nat kp \<le> Suc i" by auto
    let ?vs = "take (nat kp) (drop (Suc i - nat kp) (map High data))"
    have win: "window (col_High data) (nat kp) i = map Fin ?vs"
      unfolding col_High_Fin by (rule window_map)
    have ne: "?vs \<noteq> []" using window_nonempty [OF w] assms(2) by simp
    have mem: "High (data ! i) \<in> set ?vs"
      using in_window [OF w, of "map High data"] assms(2) by simp
    from win_max_Fin [OF ne] obtain m where
      m: "win_max (map Fin ?vs) = Fin m" "\<forall>v\<in>set ?vs. v \<le> m" by blast
    have nn: "NaN \<notin> set (window (col_High data) (nat kp) i)"
      unfolding win by auto
    have "rolling_apply win_max (nat kp) (col_High data) ! i = win_max (window (col_High data) (nat kp) i)"
      using nth_rolling_apply [of i "col_High data" win_max "nat kp"] w nn assms(2)
      by (simp add: length_cols)
    then have "high_max ! i = Fin m"
      using r win m(1) by simp
    then show ?thesis using m(2) mem by blast
  qed
qed

lemma nth_stochastic_fast_k:
  "i < length data \<Longrightarrow> length low_min = length data \<Longrightarrow> length high_max = length data \<Longrightarrow>
   stochastic_fast_k data low_min high_max ! i =
     fl_mul (Fin 100) (fl_div (fl_sub (Fin (Close (data ! i))) (low_min ! i))
                              (fl_sub (high_max ! i) (low_min ! i)))"
  by (simp add: stochastic_fast_k_def col_Close_def)

section \<open>Bollinger bands\<close>

lemma win_std_Fin:
  "win_std (map Fin vs) =
     (if length vs < 2 then NaN
      else Fin (sqrt (sum_list (map (\<lambda>v. (v - sum_list vs / real (length vs)) ^ 2) vs)
                       / real (length vs - 1))))"
proof -
  have a: "list_all is_fin (map Fin vs)" by (induction vs) simp_all
  have b: "map fin_val (map Fin vs) = vs" by (induction vs) simp_all
  show ?thesis using a by (simp only: win_std_def Let_def b length_map) simp
qed

lemma sum_list_squares_nonneg: "0 \<le> sum_list (map (\<lambda>v. (v - c) ^ 2) (vs::real list))"
  by (induction vs) simp_all

lemma rolling_close_at:
  assumes "i < length data"
  shows "rolling_apply f (nat w) (col_Close data) ! i =
     (if nat w = 0 \<or> Suc i < nat w then NaN
      else f (map Fin (take (nat w) (drop (Suc i - nat w) (map Close data)))))"
proof -
  have win: "window (col_Close data) (nat w) i =
      map Fin (take (nat w) (drop (Suc i - nat w) (map Close data)))"
    unfolding col_Close_Fin by (rule window_map)
  have nn: "NaN \<notin> set (window (col_Close data) (nat w) i)"
    unfolding win by auto
  show ?thesis
    using nth_rolling_apply [of i "col_Close data" f "nat w"] assms nn
    by (simp add: length_cols win)
qed

lemma fl_mul_Fin_right_is_Fin: "fl_mul x (Fin k) = Fin p \<Longrightarrow> \<exists>s. x = Fin s \<and> p = s * k"
  by (cases x) (auto simp: fl_inf_def split: if_splits)

lemma fl_add_Fin_is_Fin: "fl_add (Fin m) y = Fin u \<Longrightarrow> \<exists>p. y = Fin p \<and> u = m + p"
  by (cases y) auto

lemma fl_sub_Fin_is_Fin: "fl_sub (Fin m) y = Fin l \<Longrightarrow> \<exists>p. y = Fin p \<and> l = m - p"
  by (cases y) (auto simp: fl_sub_def)

section \<open>The relative strength index\<close>

lemma rolling_apply_Fin_at:
  assumes "i < length vs"
  shows "rolling_apply f w (map Fin vs) ! i =
     (if w = 0 \<or> Suc i < w then NaN else f (map Fin (take w (drop (Suc i - w) vs))))"
proof -
  have win: "window (map Fin vs) w i = map Fin (take w (drop (Suc i - w) vs))"
    by (rule window_map)
  have nn: "NaN \<notin> set (window (map Fin vs) w i)"
    unfolding win by auto
  show ?thesis
    using nth_rolling_apply [of i "map Fin vs" f w] assms nn by (simp add: win)
qed

lemma nth_diff_Fin:
  "i < length vs \<Longrightarrow>
   diff (map Fin vs) ! i = (if i = 0 then NaN else Fin (vs ! i - vs ! (i - 1)))"
proof (cases vs)
  case Nil
  assume "i < length vs"
  then show ?thesis using Nil by simp
next
  case (Cons v rest)
  assume i: "i < length vs"
  show ?thesis
  proof (cases i)
    case 0
    then show ?thesis using Cons by (simp add: diff_def)
  next
    case (Suc j)
    have j: "j < length rest" using i Cons Suc by simp
    have prev: "(Fin v # map Fin rest) ! j = Fin ((v # rest) ! j)"
      using nth_map [of j "v # rest" Fin] j by simp
    have "diff (map Fin vs) ! i = fl_sub (Fin (rest ! j)) ((Fin v # map Fin rest) ! j)"
      using Cons Suc j by (simp add: diff_def)
    then have "diff (map Fin vs) ! i = fl_sub (Fin (rest ! j)) (Fin ((v # rest) ! j))"
      using prev by simp
    then show ?thesis using Cons Suc by (simp add: fl_sub_def)
  qed
qed

lemma rsi_gain_manual:
  "rsi_gain data = map Fin (map (manual_gain (map Close data)) [0..<length data])"
proof (rule nth_equalityI)
  show "length (rsi_gain data) =
      length (map Fin (map (manual_gain (map Close data)) [0..<length data]))"
    by (simp add: length_rsi_gain)
next
  fix i
  assume "i < length (rsi_gain data)"
  then have i: "i < length data" by (simp add: length_rsi_gain)
  have d: "diff (col_Close data) ! i =
      (if i = 0 then NaN else Fin (map Close data ! i - map Close data ! (i - 1)))"
    unfolding col_Close_Fin using i by (simp add: nth_diff_Fin del: map_map)
  have "rsi_gain data ! i =
      (if fl_less (Fin 0) (diff (col_Close data) ! i) then diff (col_Close data) ! i else Fin 0)"
    using i by (simp add: rsi_gain_def length_diff length_cols)
  also have "\<dots> = Fin (manual_gain (map Close data) i)"
    unfolding d by (simp add: manual_gain_def max_def)
  finally show "rsi_gain data ! i =
      map Fin (map (manual_gain (map Close data)) [0..<length data]) ! i"
    using i by simp
qed

lemma rsi_loss_manual:
  "rsi_loss data = map Fin (map (manual_loss (map Close data)) [0..<length data])"
proof (rule nth_equalityI)
  show "length (rsi_loss data) =
      length (map Fin (map (manual_loss (map Close data)) [0..<length data]))"
    by (simp add: length_rsi_loss)
next
  fix i
  assume "i < length (rsi_loss data)"
  then have i: "i < length data" by (simp add: length_rsi_loss)
  have d: "diff (col_Close data) ! i =
      (if i = 0 then NaN else Fin (map Close data ! i - map Close data ! (i - 1)))"
    unfolding col_Close_Fin using i by (simp add: nth_diff_Fin del: map_map)
  have "rsi_loss data ! i =
      fl_neg (if fl_less (diff (col_Close data) ! i) (Fin 0) then diff (col_Close data) ! i
              else Fin 0)"
    using i by (simp add: rsi_loss_def length_diff length_cols)
  also have "\<dots> = Fin (manual_loss (map Close data) i)"
    unfolding d by (simp add: manual_loss_def max_def)
  finally show "rsi_loss data ! i =
      map Fin (map (manual_loss (map Close data)) [0..<length data]) ! i"
    using i by simp
qed

lemma window_upt:
  "w \<le> Suc i \<Longrightarrow> i < n \<Longrightarrow> take w (drop (Suc i - w) (map f [0..<n])) = map f [Suc i - w..<Suc i]"
  by (simp add: take_map drop_map)

lemma rolling_mean_manual_at:
  assumes "i < length data" "0 < w" "w \<le> Suc i"
  shows "rolling_apply win_mean w (map Fin (map (f (map Close data)) [0..<length data])) ! i =
         Fin (manual_avg f (map Close data) w i)"
proof -
  let ?vs = "map (f (map Close data)) [0..<length data]"
  have win: "take w (drop (Suc i - w) ?vs) = map (f (map Close data)) [Suc i - w..<Suc i]"
    by (rule window_upt) (simp_all add: assms)
  have len: "length (map (f (map Close data)) [Suc i - w..<Suc i]) = w"
    using assms by simp
  have ne: "map (f (map Close data)) [Suc i - w..<Suc i] \<noteq> []"
    using len assms(2) by (metis length_0_conv less_numeral_extra(3))
  have "rolling_apply win_mean w (map Fin ?vs) ! i =
      win_mean (map Fin (take w (drop (Suc i - w) ?vs)))"
    using rolling_apply_Fin_at [of i ?vs win_mean w] assms by simp
  also have "\<dots> = Fin (sum_list (map (f (map Close data)) [Suc i - w..<Suc i]) / real w)"
    unfolding win using win_mean_Fin [OF ne] len by simp
  finally show ?thesis by (simp add: manual_avg_def)
qed

lemma manual_gain_nonneg: "0 \<le> manual_gain cs j"
  by (simp add: manual_gain_def)

lemma manual_loss_nonneg: "0 \<le> manual_loss cs j"
  by (simp add: manual_loss_def)

lemma manual_avg_gain_nonneg: "0 \<le> manual_avg manual_gain cs w i"
  unfolding manual_avg_def
  by (intro divide_nonneg_nonneg sum_list_nonneg) (auto simp: manual_gain_nonneg)

lemma manual_avg_loss_nonneg: "0 \<le> manual_avg manual_loss cs w i"
  unfolding manual_avg_def
  by (intro divide_nonneg_nonneg sum_list_nonneg) (auto simp: manual_loss_nonneg)

lemma rsi_value_regular:
  "0 \<le> g \<Longrightarrow> 0 < l \<Longrightarrow> rsi_value (Fin g) (Fin l) = Fin (100 - 100 / (1 + g / l))"
proof -
  assume g: "0 \<le> g" and l: "0 < l"
  have "0 \<le> g / l" using g l by simp
  then have "1 + g / l \<noteq> 0" by linarith
  then show ?thesis using l by (simp add: rsi_value_def fl_sub_def)
qed

lemma rsi_value_zero_loss: "0 < g \<Longrightarrow> rsi_value (Fin g) (Fin 0) = Fin 100"
  by (simp add: rsi_value_def fl_sub_def fl_inf_def)

lemma rsi_value_flat: "rsi_value (Fin 0) (Fin 0) = NaN"
  by (simp add: rsi_value_def fl_sub_def fl_inf_def)

lemma calculate_rsi_at:
  assumes "i < length data" "0 < w" "nat w \<le> Suc i"
  shows "\<exists>r. calculate_rsi data w = Inr r \<and>
           r ! i = rsi_value (Fin (manual_avg manual_gain (map Close data) (nat w) i))
                             (Fin (manual_avg manual_loss (map Close data) (nat w) i))"
proof -
  let ?ag = "rolling_apply win_mean (nat w) (rsi_gain data)"
  let ?al = "rolling_apply win_mean (nat w) (rsi_loss data)"
  have r: "calculate_rsi data w = Inr (map (\<lambda>(g, l). rsi_value g l) (zip ?ag ?al))"
    using assms(2) by (simp add: calculate_rsi_def rolling_mean_def rolling_def bind_err_Inr)
  have w: "0 < nat w" using assms(2) by simp
  have g: "?ag ! i = Fin (manual_avg manual_gain (map Close data) (nat w) i)"
    unfolding rsi_gain_manual by (rule rolling_mean_manual_at [OF assms(1) w assms(3)])
  have l: "?al ! i = Fin (manual_avg manual_loss (map Close data) (nat w) i)"
    unfolding rsi_loss_manual by (rule rolling_mean_manual_at [OF assms(1) w assms(3)])
  have "map (\<lambda>(g, l). rsi_value g l) (zip ?ag ?al) ! i = rsi_value (?ag ! i) (?al ! i)"
    using assms(1) by (simp add: length_rolling_apply length_rsi_gain length_rsi_loss)
  then show ?thesis using r g l by simp
qed

lemma elem_le_sum_list_nonneg:
  "\<forall>x\<in>set xs. (0::real) \<le> x \<Longrightarrow> y \<in> set xs \<Longrightarrow> y \<le> sum_list xs"
proof (induction xs)
  case Nil
  then show ?case by simp
next
  case (Cons a xs)
  have nn: "0 \<le> sum_list xs" using Cons.prems(1) by (simp add: sum_list_nonneg)
  show ?case
  proof (cases "y = a")
    case True
    then show ?thesis using nn by simp
  next
    case False
    then have "y \<le> sum_list xs" using Cons by simp
    moreover have "0 \<le> a" using Cons.prems(1) by simp
    ultimately show ?thesis by simp
  qed
qed

section \<open>Adding indicators: what each function adds\<close>

lemma show_int_values:
  "show_int 50 = ''50''" "show_int 200 = ''200''" "show_int 20 = ''20''" "show_int 14 = ''14''"
  by (simp_all add: show_int_def show_nat.simps)

lemma adds_refl: "adds fig fig [] [] row"
  by (simp add: adds_def)

lemma adds_annotations: "adds fig fig' infos axes row \<Longrightarrow>
    adds fig (fig'\<lparr>annotations := a\<rparr>) infos axes row"
  by (simp add: adds_def trace_info_def axis_rows_def)

lemma add_moving_average_adds:
  assumes "0 \<le> w"
  shows "\<exists>fig'. add_moving_average fig data w row = Inr fig' \<and>
           adds fig fig' [(show_int w @ ''-day MA'', length data)] [] row"
proof -
  from assms obtain ma where ma: "rolling_mean w (col_Close data) = Inr ma"
    unfolding rolling_mean_def using rolling_returns by blast
  have l: "length ma = length data"
    using rolling_mean_length [OF ma] by (simp add: length_cols)
  show ?thesis
    by (simp add: add_moving_average_def ma bind_err_Inr adds_def trace_info_def
        axis_rows_def add_trace_def l)
qed

lemma add_exponential_moving_average_adds:
  assumes "1 \<le> w"
  shows "\<exists>fig'. add_exponential_moving_average fig data w row = Inr fig' \<and>
           adds fig fig' [(show_int w @ ''-day EMA'', length data)] [] row"
proof -
  from assms obtain ema where ema: "ewm_mean w (col_Close data) = Inr ema"
    using ewm_mean_returns by blast
  have l: "length ema = length data"
    using ewm_mean_length [OF ema] by (simp add: length_cols)
  show ?thesis
    by (simp add: add_exponential_moving_average_def ema bind_err_Inr adds_def trace_info_def
        axis_rows_def add_trace_def l)
qed

lemma add_bollinger_bands_adds:
  assumes "0 \<le> w"
  shows "\<exists>fig'. add_bollinger_bands fig data w k row = Inr fig' \<and>
           adds fig fig'
             [(show_int w @ ''-day MA'', length data), (''Upper Band'', length data),
              (''Lower Band'', length data), (''Upper Band'', length data),
              (''Lower Band'', length data)] [] row"
proof -
  from bollinger_returns [OF assms] obtain ma up lo where
    b: "bollinger_bands data w k = Inr (ma, up, lo)" by blast
  have l: "length ma = length data" "length up = length data" "length lo = length data"
    using bollinger_aligned [OF b] by simp_all
  show ?thesis
    by (simp add: add_bollinger_bands_def b bind_err_Inr adds_def trace_info_def
        axis_rows_def add_trace_def l Let_def)
qed

lemma add_rsi_adds:
  assumes "0 \<le> w" "data \<noteq> []"
  shows "\<exists>fig'. add_rsi fig data w row = Inr fig' \<and>
           adds fig fig'
             [(''RSI ('' @ show_int w @ '')'', length data), (''Overbought'', 2),
              (''Oversold'', 2), (''Middle'', 2)] [''RSI''] row"
proof -
  from rsi_returns [OF assms(1)] obtain r where r: "calculate_rsi data w = Inr r" by blast
  have l: "length r = length data" using rsi_aligned [OF r] by simp
  have e: "date_ends data = Inr [Date (hd data), Date (last data)]"
    using assms(2) by (simp add: date_ends_def)
  show ?thesis
    by (simp add: add_rsi_def r e bind_err_Inr adds_def trace_info_def axis_rows_def
        add_trace_def update_yaxes_def level_line_def l Let_def)
qed

lemma add_rsi_empty: "0 \<le> w \<Longrightarrow> add_rsi fig [] w row = Inl IndexError"
proof -
  assume "0 \<le> w"
  from rsi_returns [OF this] obtain r where r: "calculate_rsi [] w = Inr r" by blast
  show ?thesis
    by (simp add: add_rsi_def r bind_err_Inr bind_err_Inl date_ends_def Let_def)
qed

lemma add_macd_adds:
  assumes "1 \<le> fp" "1 \<le> slp" "1 \<le> sgp"
  shows "\<exists>fig'. add_macd fig data fp slp sgp row = Inr fig' \<and>
           adds fig fig'
             [(''MACD'', length data), (''Signal'', length data), (''Histogram'', length data)]
             [''MACD''] row"
proof -
  from macd_returns [OF assms] obtain m s h where
    c: "calculate_macd data fp slp sgp = Inr (m, s, h)" by blast
  have l: "length m = length data" "length s = length data" "length h = length data"
    using macd_aligned [OF c] by simp_all
  show ?thesis
    by (simp add: add_macd_def c bind_err_Inr adds_def trace_info_def axis_rows_def
        add_trace_def update_yaxes_def l Let_def)
qed

lemma add_stochastic_adds:
  assumes "0 \<le> kp" "0 \<le> dp" "0 \<le> sk" "data \<noteq> []"
  shows "\<exists>fig'. add_stochastic fig data kp dp sk row = Inr fig' \<and>
           adds fig fig'
             [(''%K'', length data), (''%D'', length data), (''Overbought'', 2),
              (''Oversold'', 2)] [''Stochastic''] row"
proof -
  from stochastic_returns [OF assms(1,2,3)] obtain k d where
    c: "calculate_stochastic data kp dp sk = Inr (k, d)" by blast
  have l: "length k = length data" "length d = length data"
    using stochastic_aligned [OF c] by simp_all
  have e: "date_ends data = Inr [Date (hd data), Date (last data)]"
    using assms(4) by (simp add: date_ends_def)
  show ?thesis
    by (simp add: add_stochastic_def c e bind_err_Inr adds_def trace_info_def axis_rows_def
        add_trace_def update_yaxes_def level_line_def l Let_def)
qed

lemma add_stochastic_empty:
  assumes "0 \<le> kp" "0 \<le> dp" "0 \<le> sk"
  shows "add_stochastic fig [] kp dp sk row = Inl IndexError"
proof -
  from stochastic_returns [OF assms] obtain k d where
    c: "calculate_stochastic [] kp dp sk = Inr (k, d)" by blast
  show ?thesis
    by (simp add: add_stochastic_def c bind_err_Inr bind_err_Inl date_ends_def Let_def)
qed

lemma add_atr_adds:
  assumes "0 \<le> w"
  shows "\<exists>fig'. add_atr fig data w row = Inr fig' \<and>
           adds fig fig' [(''ATR ('' @ show_int w @ '')'', length data)] [''ATR''] row"
proof -
  from atr_returns [OF assms] obtain r where r: "calculate_atr data w = Inr r" by blast
  have l: "length r = length data" using atr_aligned [OF r] by simp
  show ?thesis
    by (simp add: add_atr_def r bind_err_Inr adds_def trace_info_def axis_rows_def
        add_trace_def update_yaxes_def l Let_def)
qed

lemma add_obv_adds:
  assumes "data \<noteq> []"
  shows "\<exists>fig'. add_obv fig data row = Inr fig' \<and>
           adds fig fig' [(''OBV'', length data), (''OBV EMA (20)'', length data)] [''OBV''] row"
proof -
  from obv_returns [OF assms] obtain obv where
    c: "calculate_on_balance_volume data = Inr obv" by blast
  have l: "length obv = length data" using obv_aligned [OF c] by simp
  obtain e where e: "ewm_mean 20 obv = Inr e" using ewm_mean_returns [of 20 obv] by auto
  have le: "length e = length data" using ewm_mean_length [OF e] l by simp
  show ?thesis
    by (simp add: add_obv_def c e bind_err_Inr adds_def trace_info_def axis_rows_def
        add_trace_def update_yaxes_def l le Let_def)
qed

lemma add_obv_empty: "add_obv fig [] row = Inl IndexError"
  by (simp add: add_obv_def calculate_on_balance_volume_def bind_err_Inl)

section \<open>The blocks of the chart builder\<close>

lemma adds_trans:
  "adds f1 f2 i1 a1 1 \<Longrightarrow> adds f2 f3 i2 a2 1 \<Longrightarrow> adds f1 f3 (i1 @ i2) (a1 @ a2) 1"
  by (simp add: adds_def)

lemma overlay_block_skip: "key \<notin> set inds \<Longrightarrow> overlay_block key add inds fig = Inr fig"
  by (simp add: overlay_block_def)

lemma overlay_block_take: "key \<in> set inds \<Longrightarrow> overlay_block key add inds fig = add fig"
  by (simp add: overlay_block_def)

lemma oscillator_block_skip:
  "key \<notin> set inds \<Longrightarrow> oscillator_block key label add inds heights st = Inr st"
  by (cases st) (simp add: oscillator_block_def)

lemma oscillator_block_fail:
  "key \<in> set inds \<Longrightarrow> add fig (Suc r) = Inl e \<Longrightarrow>
   oscillator_block key label add inds heights (fig, r) = Inl e"
  by (simp add: oscillator_block_def bind_err_Inl)

lemma oscillator_block_take:
  assumes "key \<in> set inds" "add fig (Suc r) = Inr fig'" "r < length heights"
  shows "oscillator_block key label add inds heights (fig, r) =
           Inr (fig'\<lparr>annotations := [(label, 1 - (real (Suc r) - 3 / 2) * heights ! r)]\<rparr>,
                Suc r)"
  using assms by (simp add: oscillator_block_def bind_err_Inr annotation_y_def)

lemma oscillator_block_adds:
  assumes "key \<in> set inds \<Longrightarrow> \<exists>fig'. add fig (Suc r) = Inr fig' \<and> adds fig fig' infos axes (Suc r)"
    and "key \<in> set inds \<Longrightarrow> r < length heights"
  shows "\<exists>fig'. oscillator_block key label add inds heights (fig, r) =
             Inr (fig', if key \<in> set inds then Suc r else r) \<and>
           adds fig fig' (if key \<in> set inds then infos else [])
             (if key \<in> set inds then axes else []) (Suc r)"
proof (cases "key \<in> set inds")
  case True
  from assms(1) [OF True] obtain fig' where
    a: "add fig (Suc r) = Inr fig'" and b: "adds fig fig' infos axes (Suc r)" by blast
  have lt: "r < length heights" using assms(2) True by simp
  have "oscillator_block key label add inds heights (fig, r) =
      Inr (fig'\<lparr>annotations := [(label, 1 - (real (Suc r) - 3 / 2) * heights ! r)]\<rparr>, Suc r)"
    using True a lt by (rule oscillator_block_take)
  then show ?thesis using True adds_annotations [OF b] by auto
next
  case False
  then show ?thesis by (simp add: oscillator_block_skip adds_refl)
qed

lemma length_chart_heights: "0 < n \<Longrightarrow> length (chart_heights n) = n"
  by (simp add: chart_heights_def)

lemma subplot_count_pos: "0 < subplot_count inds"
  by (simp add: subplot_count_def)

lemma sum_replicate_real: "sum_list (replicate k (c::real)) = real k * c"
  by (induction k) (simp_all add: algebra_simps)

section \<open>The layout of the technical chart\<close>

lemma sma_block_adds:
  "\<exists>fig'. overlay_block ''sma''
            (\<lambda>f. bind_err (add_moving_average f data 50 1)
                   (\<lambda>f'. add_moving_average f' data 200 1)) inds fig = Inr fig' \<and>
          adds fig fig'
            (if ''sma'' \<in> set inds
             then [(''50-day MA'', length data), (''200-day MA'', length data)] else []) [] 1"
proof (cases "''sma'' \<in> set inds")
  case True
  obtain f1 where f1: "add_moving_average fig data 50 1 = Inr f1"
    and a1: "adds fig f1 [(show_int 50 @ ''-day MA'', length data)] [] 1"
    using add_moving_average_adds [of 50 fig data 1] by auto
  obtain f2 where f2: "add_moving_average f1 data 200 1 = Inr f2"
    and a2: "adds f1 f2 [(show_int 200 @ ''-day MA'', length data)] [] 1"
    using add_moving_average_adds [of 200 f1 data 1] by auto
  have "adds fig f2 [(''50-day MA'', length data), (''200-day MA'', length data)] [] 1"
    using adds_trans [OF a1 a2] by (simp add: show_int_values)
  then show ?thesis
    using True f1 f2 by (simp add: overlay_block_take bind_err_Inr)
next
  case False
  then show ?thesis by (simp add: overlay_block_skip adds_refl)
qed

lemma ema_block_adds:
  "\<exists>fig'. overlay_block ''ema'' (\<lambda>f. add_exponential_moving_average f data 20 1) inds fig =
            Inr fig' \<and>
          adds fig fig' (if ''ema'' \<in> set inds then [(''20-day EMA'', length data)] else []) [] 1"
proof (cases "''ema'' \<in> set inds")
  case True
  obtain f1 where f1: "add_exponential_moving_average fig data 20 1 = Inr f1"
    and a1: "adds fig f1 [(show_int 20 @ ''-day EMA'', length data)] [] 1"
    using add_exponential_moving_average_adds [of 20 fig data 1] by auto
  have "adds fig f1 [(''20-day EMA'', length data)] [] 1"
    using a1 by (simp add: show_int_values)
  then show ?thesis
    using True f1 by (simp add: overlay_block_take)
next
  case False
  then show ?thesis by (simp add: overlay_block_skip adds_refl)
qed

lemma bollinger_block_adds:
  "\<exists>fig'. overlay_block ''bollinger'' (\<lambda>f. add_bollinger_bands f data 20 2 1) inds fig =
            Inr fig' \<and>
          adds fig fig'
            (if ''bollinger'' \<in> set inds
             then [(''20-day MA'', length data), (''Upper Band'', length data),
                   (''Lower Band'', length data), (''Upper Band'', length data),
                   (''Lower Band'', length data)] else []) [] 1"
proof (cases "''bollinger'' \<in> set inds")
  case True
  obtain f1 where f1: "add_bollinger_bands fig data 20 2 1 = Inr f1"
    and a1: "adds fig f1
        [(show_int 20 @ ''-day MA'', length data), (''Upper Band'', length data),
         (''Lower Band'', length data), (''Upper Band'', length data),
         (''Lower Band'', length data)] [] 1"
    using add_bollinger_bands_adds [of 20 fig data 2 1] by auto
  have "adds fig f1
        [(''20-day MA'', length data), (''Upper Band'', length data),
         (''Lower Band'', length data), (''Upper Band'', length data),
         (''Lower Band'', length data)] [] 1"
    using a1 by (simp add: show_int_values)
  then show ?thesis
    using True f1 by (simp add: overlay_block_take)
next
  case False
  then show ?thesis by (simp add: overlay_block_skip adds_refl)
qed

lemma rsi_block_adds:
  assumes "data \<noteq> [] \<or> ''rsi'' \<notin> set inds"
    and "''rsi'' \<in> set inds \<Longrightarrow> r < length heights"
  shows "\<exists>fig'. oscillator_block ''rsi'' ''RSI (14)'' (\<lambda>f r. add_rsi f data 14 r) inds heights
             (fig, r) = Inr (fig', if ''rsi'' \<in> set inds then Suc r else r) \<and>
           adds fig fig'
             (if ''rsi'' \<in> set inds
              then [(''RSI (14)'', length data), (''Overbought'', 2), (''Oversold'', 2),
                    (''Middle'', 2)] else [])
             (if ''rsi'' \<in> set inds then [''RSI''] else []) (Suc r)"
proof (rule oscillator_block_adds)
  assume k: "''rsi'' \<in> set inds"
  then have ne: "data \<noteq> []" using assms(1) by simp
  show "\<exists>fig'. add_rsi fig data 14 (Suc r) = Inr fig' \<and>
      adds fig fig'
        [(''RSI (14)'', length data), (''Overbought'', 2), (''Oversold'', 2), (''Middle'', 2)]
        [''RSI''] (Suc r)"
    using add_rsi_adds [of 14 data fig "Suc r"] ne by (simp add: show_int_values)
next
  assume "''rsi'' \<in> set inds"
  then show "r < length heights" by (rule assms(2))
qed

lemma macd_block_adds:
  assumes "''macd'' \<in> set inds \<Longrightarrow> r < length heights"
  shows "\<exists>fig'. oscillator_block ''macd'' ''MACD'' (\<lambda>f r. add_macd f data 12 26 9 r) inds heights
             (fig, r) = Inr (fig', if ''macd'' \<in> set inds then Suc r else r) \<and>
           adds fig fig'
             (if ''macd'' \<in> set inds
              then [(''MACD'', length data), (''Signal'', length data),
                    (''Histogram'', length data)] else [])
             (if ''macd'' \<in> set inds then [''MACD''] else []) (Suc r)"
proof (rule oscillator_block_adds)
  show "\<exists>fig'. add_macd fig data 12 26 9 (Suc r) = Inr fig' \<and>
      adds fig fig'
        [(''MACD'', length data), (''Signal'', length data), (''Histogram'', length data)]
        [''MACD''] (Suc r)"
    using add_macd_adds [of 12 26 9 fig data "Suc r"] by simp
next
  assume "''macd'' \<in> set inds"
  then show "r < length heights" by (rule assms)
qed

lemma stoch_block_adds:
  assumes "data \<noteq> [] \<or> ''stoch'' \<notin> set inds"
    and "''stoch'' \<in> set inds \<Longrightarrow> r < length heights"
  shows "\<exists>fig'. oscillator_block ''stoch'' ''Stochastic''
             (\<lambda>f r. add_stochastic f data 14 3 3 r) inds heights (fig, r) =
             Inr (fig', if ''stoch'' \<in> set inds then Suc r else r) \<and>
           adds fig fig'
             (if ''stoch'' \<in> set inds
              then [(''%K'', length data), (''%D'', length data), (''Overbought'', 2),
                    (''Oversold'', 2)] else [])
             (if ''stoch'' \<in> set inds then [''Stochastic''] else []) (Suc r)"
proof (rule oscillator_block_adds)
  assume k: "''stoch'' \<in> set inds"
  then have ne: "data \<noteq> []" using assms(1) by simp
  show "\<exists>fig'. add_stochastic fig data 14 3 3 (Suc r) = Inr fig' \<and>
      adds fig fig'
        [(''%K'', length data), (''%D'', length data), (''Overbought'', 2), (''Oversold'', 2)]
        [''Stochastic''] (Suc r)"
    using add_stochastic_adds [of 14 3 3 data fig "Suc r"] ne by simp
next
  assume "''stoch'' \<in> set inds"
  then show "r < length heights" by (rule assms(2))
qed

lemma atr_block_adds:
  assumes "''atr'' \<in> set inds \<Longrightarrow> r < length heights"
  shows "\<exists>fig'. oscillator_block ''atr'' ''ATR (14)'' (\<lambda>f r. add_atr f data 14 r) inds heights
             (fig, r) = Inr (fig', if ''atr'' \<in> set inds then Suc r else r) \<and>
           adds fig fig'
             (if ''atr'' \<in> set inds then [(''ATR (14)'', length data)] else [])
             (if ''atr'' \<in> set inds then [''ATR''] else []) (Suc r)"
proof (rule oscillator_block_adds)
  show "\<exists>fig'. add_atr fig data 14 (Suc r) = Inr fig' \<and>
      adds fig fig' [(''ATR (14)'', length data)] [''ATR''] (Suc r)"
    using add_atr_adds [of 14 fig data "Suc r"] by (simp add: show_int_values)
next
  assume "''atr'' \<in> set inds"
  then show "r < length heights" by (rule assms)
qed

lemma obv_block_adds:
  assumes "data \<noteq> [] \<or> ''obv'' \<notin> set inds"
    and "''obv'' \<in> set inds \<Longrightarrow> r < length heights"
  shows "\<exists>fig'. oscillator_block ''obv'' ''On Balance Volume'' (\<lambda>f r. add_obv f data r) inds
             heights (fig, r) = Inr (fig', if ''obv'' \<in> set inds then Suc r else r) \<and>
           adds fig fig'
             (if ''obv'' \<in> set inds
              then [(''OBV'', length data), (''OBV EMA (20)'', length data)] else [])
             (if ''obv'' \<in> set inds then [''OBV''] else []) (Suc r)"
proof (rule oscillator_block_adds)
  assume k: "''obv'' \<in> set inds"
  then have ne: "data \<noteq> []" using assms(1) by simp
  show "\<exists>fig'. add_obv fig data (Suc r) = Inr fig' \<and>
      adds fig fig' [(''OBV'', length data), (''OBV EMA (20)'', length data)] [''OBV''] (Suc r)"
    using add_obv_adds [OF ne] by simp
next
  assume "''obv'' \<in> set inds"
  then show "r < length heights" by (rule assms(2))
qed

lemma osc_row_values:
  "osc_row inds ''rsi'' = 2"
  "osc_row inds ''macd'' = 2 + (if ''rsi'' \<in> set inds then 1 else 0)"
  "osc_row inds ''stoch'' =
     2 + (if ''rsi'' \<in> set inds then 1 else 0) + (if ''macd'' \<in> set inds then 1 else 0)"
  "osc_row inds ''atr'' =
     2 + (if ''rsi'' \<in> set inds then 1 else 0) + (if ''macd'' \<in> set inds then 1 else 0)
       + (if ''stoch'' \<in> set inds then 1 else 0)"
  "osc_row inds ''obv'' =
     2 + (if ''rsi'' \<in> set inds then 1 else 0) + (if ''macd'' \<in> set inds then 1 else 0)
       + (if ''stoch'' \<in> set inds then 1 else 0) + (if ''atr'' \<in> set inds then 1 else 0)"
  by (simp_all add: osc_row_def oscillator_order_def)

lemma chart_layout:
  assumes "data \<noteq> [] \<or> (''rsi'' \<notin> set inds \<and> ''stoch'' \<notin> set inds \<and> ''obv'' \<notin> set inds)"
  shows "\<exists>fig. create_technical_chart data (Some inds) = Inr fig \<and>
           rows fig = subplot_count inds \<and>
           row_heights fig = normalise_heights (chart_heights (subplot_count inds)) \<and>
           trace_info fig = chart_trace_info (length data) inds \<and>
           axis_rows fig = chart_axis_rows inds \<and>
           xaxes fig = [(subplot_count inds, ''Date'')]"
proof -
  let ?n = "subplot_count inds"
  let ?hs = "chart_heights ?n"
  let ?fig2 = "add_trace
      (add_trace (make_subplots ?n ?hs [''Price Chart''])
         (CandlestickTrace ''Price'' (col_Date data) (col_Open data) (col_High data)
            (col_Low data) (col_Close data)) 1)
      (BarTrace ''Volume'' (col_Date data) (col_Volume data) (volume_colors data)) 1"
  let ?r1 = "if ''rsi'' \<in> set inds then Suc 1 else 1"
  let ?r2 = "if ''macd'' \<in> set inds then Suc ?r1 else ?r1"
  let ?r3 = "if ''stoch'' \<in> set inds then Suc ?r2 else ?r2"
  let ?r4 = "if ''atr'' \<in> set inds then Suc ?r3 else ?r3"
  let ?r5 = "if ''obv'' \<in> set inds then Suc ?r4 else ?r4"
  have len: "length ?hs = ?n"
    by (rule length_chart_heights) (rule subplot_count_pos)
  have d1: "data \<noteq> [] \<or> ''rsi'' \<notin> set inds"
    and d3: "data \<noteq> [] \<or> ''stoch'' \<notin> set inds"
    and d5: "data \<noteq> [] \<or> ''obv'' \<notin> set inds"
    using assms by auto
  have h1: "''rsi'' \<in> set inds \<Longrightarrow> 1 < length ?hs"
    unfolding len by (simp add: subplot_count_def)
  have h2: "''macd'' \<in> set inds \<Longrightarrow> ?r1 < length ?hs"
    unfolding len by (simp add: subplot_count_def)
  have h3: "''stoch'' \<in> set inds \<Longrightarrow> ?r2 < length ?hs"
    unfolding len by (simp add: subplot_count_def)
  have h4: "''atr'' \<in> set inds \<Longrightarrow> ?r3 < length ?hs"
    unfolding len by (simp add: subplot_count_def)
  have h5: "''obv'' \<in> set inds \<Longrightarrow> ?r4 < length ?hs"
    unfolding len by (simp add: subplot_count_def)
  have base: "rows ?fig2 = ?n" "row_heights ?fig2 = normalise_heights ?hs" "xaxes ?fig2 = []"
    "trace_info ?fig2 = [(''Price'', length data, 1), (''Volume'', length data, 1)]"
    "axis_rows ?fig2 = []"
    by (simp_all add: add_trace_def make_subplots_def trace_info_def axis_rows_def length_cols)
  obtain fig3 where b3: "overlay_block ''sma''
        (\<lambda>f. bind_err (add_moving_average f data 50 1)
               (\<lambda>f'. add_moving_average f' data 200 1)) inds ?fig2 = Inr fig3"
    and a3: "adds ?fig2 fig3
        (if ''sma'' \<in> set inds
         then [(''50-day MA'', length data), (''200-day MA'', length data)] else []) [] 1"
    using sma_block_adds [of data inds ?fig2] by blast
  obtain fig4 where b4: "overlay_block ''ema''
        (\<lambda>f. add_exponential_moving_average f data 20 1) inds fig3 = Inr fig4"
    and a4: "adds fig3 fig4
        (if ''ema'' \<in> set inds then [(''20-day EMA'', length data)] else []) [] 1"
    using ema_block_adds [of data inds fig3] by blast
  obtain fig5 where b5: "overlay_block ''bollinger''
        (\<lambda>f. add_bollinger_bands f data 20 2 1) inds fig4 = Inr fig5"
    and a5: "adds fig4 fig5
        (if ''bollinger'' \<in> set inds
         then [(''20-day MA'', length data), (''Upper Band'', length data),
               (''Lower Band'', length data), (''Upper Band'', length data),
               (''Lower Band'', length data)] else []) [] 1"
    using bollinger_block_adds [of data inds fig4] by blast
  obtain fig6 where o1: "oscillator_block ''rsi'' ''RSI (14)'' (\<lambda>f r. add_rsi f data 14 r)
        inds ?hs (fig5, 1) = Inr (fig6, ?r1)"
    and a6: "adds fig5 fig6
        (if ''rsi'' \<in> set inds
         then [(''RSI (14)'', length data), (''Overbought'', 2), (''Oversold'', 2),
               (''Middle'', 2)] else [])
        (if ''rsi'' \<in> set inds then [''RSI''] else []) (Suc 1)"
    using rsi_block_adds [OF d1 h1, where fig = fig5] by blast
  obtain fig7 where o2: "oscillator_block ''macd'' ''MACD'' (\<lambda>f r. add_macd f data 12 26 9 r)
        inds ?hs (fig6, ?r1) = Inr (fig7, ?r2)"
    and a7: "adds fig6 fig7
        (if ''macd'' \<in> set inds
         then [(''MACD'', length data), (''Signal'', length data),
               (''Histogram'', length data)] else [])
        (if ''macd'' \<in> set inds then [''MACD''] else []) (Suc ?r1)"
    using macd_block_adds [OF h2, where fig = fig6 and data = data] by blast
  obtain fig8 where o3: "oscillator_block ''stoch'' ''Stochastic''
        (\<lambda>f r. add_stochastic f data 14 3 3 r) inds ?hs (fig7, ?r2) = Inr (fig8, ?r3)"
    and a8: "adds fig7 fig8
        (if ''stoch'' \<in> set inds
         then [(''%K'', length data), (''%D'', length data), (''Overbought'', 2),
               (''Oversold'', 2)] else [])
        (if ''stoch'' \<in> set inds then [''Stochastic''] else []) (Suc ?r2)"
    using stoch_block_adds [OF d3 h3, where fig = fig7] by blast
  obtain fig9 where o4: "oscillator_block ''atr'' ''ATR (14)'' (\<lambda>f r. add_atr f data 14 r)
        inds ?hs (fig8, ?r3) = Inr (fig9, ?r4)"
    and a9: "adds fig8 fig9
        (if ''atr'' \<in> set inds then [(''ATR (14)'', length data)] else [])
        (if ''atr'' \<in> set inds then [''ATR''] else []) (Suc ?r3)"
    using atr_block_adds [OF h4, where fig = fig8 and data = data] by blast
  obtain fig10 where o5: "oscillator_block ''obv'' ''On Balance Volume''
        (\<lambda>f r. add_obv f data r) inds ?hs (fig9, ?r4) = Inr (fig10, ?r5)"
    and a10: "adds fig9 fig10
        (if ''obv'' \<in> set inds
         then [(''OBV'', length data), (''OBV EMA (20)'', length data)] else [])
        (if ''obv'' \<in> set inds then [''OBV''] else []) (Suc ?r4)"
    using obv_block_adds [OF d5 h5, where fig = fig9] by blast
  let ?fig = "update_xaxes (update_yaxes fig10 ''Price'' None 1) ''Date'' ?n"
  have res: "create_technical_chart data (Some inds) = Inr ?fig"
    unfolding create_technical_chart_def Let_def
    by (simp only: option.case b3 b4 b5 o1 o2 o3 o4 o5 bind_err_Inr fst_conv)
  note chain = a3 a4 a5 a6 a7 a8 a9 a10
  have rw: "rows ?fig = ?n"
    using chain base(1) by (simp add: adds_def update_xaxes_def update_yaxes_def)
  have hw: "row_heights ?fig = normalise_heights ?hs"
    using chain base(2) by (simp add: adds_def update_xaxes_def update_yaxes_def)
  have xw: "xaxes ?fig = [(?n, ''Date'')]"
    using chain base(3) by (simp add: adds_def update_xaxes_def update_yaxes_def)
  have ti: "trace_info fig10 = chart_trace_info (length data) inds"
    using chain base(4)
    by (simp add: adds_def chart_trace_info_def overlay_info_def oscillator_info_def
        osc_row_values)
  have ar: "axis_rows fig10 @ [(''Price'', 1)] = chart_axis_rows inds"
    using chain base(5)
    by (simp add: adds_def chart_axis_rows_def oscillator_info_def osc_row_values)
  have ti': "trace_info ?fig = chart_trace_info (length data) inds"
    using ti by (simp add: trace_info_def update_xaxes_def update_yaxes_def)
  have ar': "axis_rows ?fig = chart_axis_rows inds"
    using ar by (simp add: axis_rows_def update_xaxes_def update_yaxes_def)
  show ?thesis using res rw hw xw ti' ar' by blast
qed

lemma chart_empty_raises:
  assumes "''rsi'' \<in> set inds \<or> ''stoch'' \<in> set inds \<or> ''obv'' \<in> set inds"
  shows "create_technical_chart [] (Some inds) = Inl IndexError"
proof -
  let ?data = "[] :: dataframe"
  let ?n = "subplot_count inds"
  let ?hs = "chart_heights ?n"
  let ?fig2 = "add_trace
      (add_trace (make_subplots ?n ?hs [''Price Chart''])
         (CandlestickTrace ''Price'' (col_Date ?data) (col_Open ?data) (col_High ?data)
            (col_Low ?data) (col_Close ?data)) 1)
      (BarTrace ''Volume'' (col_Date ?data) (col_Volume ?data) (volume_colors ?data)) 1"
  let ?r1 = "if ''rsi'' \<in> set inds then Suc 1 else 1"
  let ?r2 = "if ''macd'' \<in> set inds then Suc ?r1 else ?r1"
  let ?r3 = "if ''stoch'' \<in> set inds then Suc ?r2 else ?r2"
  let ?r4 = "if ''atr'' \<in> set inds then Suc ?r3 else ?r3"
  have len: "length ?hs = ?n"
    by (rule length_chart_heights) (rule subplot_count_pos)
  have h1: "''rsi'' \<in> set inds \<Longrightarrow> 1 < length ?hs"
    unfolding len by (simp add: subplot_count_def)
  have h2: "''macd'' \<in> set inds \<Longrightarrow> ?r1 < length ?hs"
    unfolding len by (simp add: subplot_count_def)
  have h3: "''stoch'' \<in> set inds \<Longrightarrow> ?r2 < length ?hs"
    unfolding len by (simp add: subplot_count_def)
  have h4: "''atr'' \<in> set inds \<Longrightarrow> ?r3 < length ?hs"
    unfolding len by (simp add: subplot_count_def)
  obtain fig3 where b3: "overlay_block ''sma''
        (\<lambda>f. bind_err (add_moving_average f ?data 50 1)
               (\<lambda>f'. add_moving_average f' ?data 200 1)) inds ?fig2 = Inr fig3"
    using sma_block_adds [of ?data inds ?fig2] by blast
  obtain fig4 where b4: "overlay_block ''ema''
        (\<lambda>f. add_exponential_moving_average f ?data 20 1) inds fig3 = Inr fig4"
    using ema_block_adds [of ?data inds fig3] by blast
  obtain fig5 where b5: "overlay_block ''bollinger''
        (\<lambda>f. add_bollinger_bands f ?data 20 2 1) inds fig4 = Inr fig5"
    using bollinger_block_adds [of ?data inds fig4] by blast
  show ?thesis
  proof (cases "''rsi'' \<in> set inds")
    case True
    have o1: "oscillator_block ''rsi'' ''RSI (14)'' (\<lambda>f r. add_rsi f ?data 14 r)
        inds ?hs (fig5, 1) = Inl IndexError"
      by (rule oscillator_block_fail [OF True]) (simp add: add_rsi_empty)
    show ?thesis
      unfolding create_technical_chart_def Let_def
      by (simp only: option.case b3 b4 b5 o1 bind_err_Inr bind_err_Inl)
  next
    case False
    then have d1: "?data \<noteq> [] \<or> ''rsi'' \<notin> set inds" by simp
    obtain fig6 where o1: "oscillator_block ''rsi'' ''RSI (14)'' (\<lambda>f r. add_rsi f ?data 14 r)
        inds ?hs (fig5, 1) = Inr (fig6, ?r1)"
      using rsi_block_adds [OF d1 h1, where fig = fig5] by blast
    obtain fig7 where o2: "oscillator_block ''macd'' ''MACD''
        (\<lambda>f r. add_macd f ?data 12 26 9 r) inds ?hs (fig6, ?r1) = Inr (fig7, ?r2)"
      using macd_block_adds [OF h2, where fig = fig6 and data = ?data] by blast
    show ?thesis
    proof (cases "''stoch'' \<in> set inds")
      case True
      have o3: "oscillator_block ''stoch'' ''Stochastic''
          (\<lambda>f r. add_stochastic f ?data 14 3 3 r) inds ?hs (fig7, ?r2) = Inl IndexError"
        by (rule oscillator_block_fail [OF True]) (simp add: add_stochastic_empty)
      show ?thesis
        unfolding create_technical_chart_def Let_def
        by (simp only: option.case b3 b4 b5 o1 o2 o3 bind_err_Inr bind_err_Inl)
    next
      case False
      then have d3: "?data \<noteq> [] \<or> ''stoch'' \<notin> set inds" by simp
      have obv: "''obv'' \<in> set inds"
        using assms \<open>''rsi'' \<notin> set inds\<close> False by simp
      obtain fig8 where o3: "oscillator_block ''stoch'' ''Stochastic''
          (\<lambda>f r. add_stochastic f ?data 14 3 3 r) inds ?hs (fig7, ?r2) = Inr (fig8, ?r3)"
        using stoch_block_adds [OF d3 h3, where fig = fig7] by blast
      obtain fig9 where o4: "oscillator_block ''atr'' ''ATR (14)''
          (\<lambda>f r. add_atr f ?data 14 r) inds ?hs (fig8, ?r3) = Inr (fig9, ?r4)"
        using atr_block_adds [OF h4, where fig = fig8 and data = ?data] by blast
      have o5: "oscillator_block ''obv'' ''On Balance Volume''
          (\<lambda>f r. add_obv f ?data r) inds ?hs (fig9, ?r4) = Inl IndexError"
        by (rule oscillator_block_fail [OF obv]) (simp add: add_obv_empty)
      show ?thesis
        unfolding create_technical_chart_def Let_def
        by (simp only: option.case b3 b4 b5 o1 o2 o3 o4 o5 bind_err_Inr bind_err_Inl)
    qed
  qed
qed

section \<open>The row heights\<close>

lemma chart_heights_Cons: "chart_heights n = (1 / 2) # tl (chart_heights n)"
  by (simp add: chart_heights_def)

lemma chart_heights_tl_sum: "1 < n \<Longrightarrow> sum_list (tl (chart_heights n)) = 1 / 2"
proof -
  assume n: "1 < n"
  then have r: "real (n - 1) \<noteq> 0" by simp
  have tl_eq: "tl (chart_heights n) = replicate (n - 1) ((1 / 2) / real (n - 1))"
    using n by (simp add: chart_heights_def)
  have "sum_list (tl (chart_heights n)) = real (n - 1) * ((1 / 2) / real (n - 1))"
    unfolding tl_eq by (rule sum_replicate_real)
  also have "\<dots> = 1 / 2" using r by simp
  finally show ?thesis .
qed

lemma chart_heights_sum: "1 < n \<Longrightarrow> sum_list (chart_heights n) = 1"
proof -
  assume n: "1 < n"
  have "sum_list (chart_heights n) = 1 / 2 + sum_list (tl (chart_heights n))"
    using chart_heights_Cons [of n] by (metis sum_list.Cons)
  then show ?thesis using chart_heights_tl_sum [OF n] by simp
qed

lemma nth_chart_heights:
  "1 \<le> j \<Longrightarrow> j < n \<Longrightarrow> chart_heights n ! j = (1 / 2) / real (n - 1)"
proof -
  assume j: "1 \<le> j" "j < n"
  then obtain i where i: "j = Suc i" by (cases j) auto
  have "i < n - 1" using j i by simp
  then show ?thesis using j i by (simp add: chart_heights_def)
qed

lemma normalise_chart_heights_many:
  "1 < n \<Longrightarrow> normalise_heights (chart_heights n) = chart_heights n"
  by (simp add: normalise_heights_def chart_heights_sum)

lemma normalise_chart_heights_one: "normalise_heights (chart_heights 1) = [1]"
  by (simp add: normalise_heights_def chart_heights_def)

lemma chart_returns_or_raises:
  "create_technical_chart data (Some inds) = Inr fig \<Longrightarrow>
   rows fig = subplot_count inds \<and>
   row_heights fig = normalise_heights (chart_heights (subplot_count inds))"
proof -
  assume res: "create_technical_chart data (Some inds) = Inr fig"
  show ?thesis
  proof (cases "data \<noteq> [] \<or>
      (''rsi'' \<notin> set inds \<and> ''stoch'' \<notin> set inds \<and> ''obv'' \<notin> set inds)")
    case True
    from chart_layout [OF True] res show ?thesis by auto
  next
    case False
    then have "create_technical_chart data (Some inds) = Inl IndexError"
      using chart_empty_raises [of inds] by auto
    then show ?thesis using res by simp
  qed
qed

text \<open>
  Claim C7. Every output sequence that an indicator calculator produces has the length of
  the input series: the simple moving average, the exponential moving average, the three
  Bollinger series, the RSI, the three MACD series, the two stochastic series, the ATR and
  the OBV. The entries in front of the first full window are present as not-a-number.
  Each calculator produces its output for every window that is not negative, every span
  of at least 1 and, for the OBV, every non-empty series; for other parameters pandas
  raises ValueError and no sequence is produced.
\<close>

theorem alignment:
  "(\<forall>r. rolling_mean w (col_Close data) = Inr r \<longrightarrow>
        length r = length data \<and> (\<forall>i<length data. int (Suc i) < w \<longrightarrow> r ! i = NaN)) \<and>
   (0 \<le> w \<longrightarrow> (\<exists>r. rolling_mean w (col_Close data) = Inr r)) \<and>
   (\<forall>r. ewm_mean sp (col_Close data) = Inr r \<longrightarrow> length r = length data) \<and>
   (1 \<le> sp \<longrightarrow> (\<exists>r. ewm_mean sp (col_Close data) = Inr r)) \<and>
   (\<forall>ma up lo. bollinger_bands data w k = Inr (ma, up, lo) \<longrightarrow>
        length ma = length data \<and> length up = length data \<and> length lo = length data \<and>
        (\<forall>i<length data. int (Suc i) < w \<longrightarrow> ma ! i = NaN \<and> up ! i = NaN \<and> lo ! i = NaN)) \<and>
   (0 \<le> w \<longrightarrow> (\<exists>ma up lo. bollinger_bands data w k = Inr (ma, up, lo))) \<and>
   (\<forall>r. calculate_rsi data w = Inr r \<longrightarrow>
        length r = length data \<and> (\<forall>i<length data. int (Suc i) < w \<longrightarrow> r ! i = NaN)) \<and>
   (0 \<le> w \<longrightarrow> (\<exists>r. calculate_rsi data w = Inr r)) \<and>
   (\<forall>m s h. calculate_macd data fp slp sgp = Inr (m, s, h) \<longrightarrow>
        length m = length data \<and> length s = length data \<and> length h = length data) \<and>
   (1 \<le> fp \<and> 1 \<le> slp \<and> 1 \<le> sgp \<longrightarrow> (\<exists>m s h. calculate_macd data fp slp sgp = Inr (m, s, h))) \<and>
   (\<forall>kk d. calculate_stochastic data kp dp sk = Inr (kk, d) \<longrightarrow>
        length kk = length data \<and> length d = length data \<and>
        (\<forall>i<length data. int (Suc i) < kp \<longrightarrow> kk ! i = NaN \<and> d ! i = NaN)) \<and>
   (0 \<le> kp \<and> 0 \<le> dp \<and> 0 \<le> sk \<longrightarrow> (\<exists>kk d. calculate_stochastic data kp dp sk = Inr (kk, d))) \<and>
   (\<forall>r. calculate_atr data w = Inr r \<longrightarrow>
        length r = length data \<and> (\<forall>i<length data. int (Suc i) < w \<longrightarrow> r ! i = NaN)) \<and>
   (0 \<le> w \<longrightarrow> (\<exists>r. calculate_atr data w = Inr r)) \<and>
   (\<forall>r. calculate_on_balance_volume data = Inr r \<longrightarrow> length r = length data) \<and>
   (data \<noteq> [] \<longrightarrow> (\<exists>r. calculate_on_balance_volume data = Inr r))"
proof -
  have sma: "\<forall>r. rolling_mean w (col_Close data) = Inr r \<longrightarrow>
        length r = length data \<and> (\<forall>i<length data. int (Suc i) < w \<longrightarrow> r ! i = NaN)"
    using sma_aligned by blast
  have sma_ret: "0 \<le> w \<longrightarrow> (\<exists>r. rolling_mean w (col_Close data) = Inr r)"
    by (simp add: rolling_mean_def rolling_returns)
  have ema: "\<forall>r. ewm_mean sp (col_Close data) = Inr r \<longrightarrow> length r = length data"
    using ewm_mean_length [of sp "col_Close data"] by (simp add: length_cols)
  have ema_ret: "1 \<le> sp \<longrightarrow> (\<exists>r. ewm_mean sp (col_Close data) = Inr r)"
    by (simp add: ewm_mean_returns)
  have bb: "\<forall>ma up lo. bollinger_bands data w k = Inr (ma, up, lo) \<longrightarrow>
        length ma = length data \<and> length up = length data \<and> length lo = length data \<and>
        (\<forall>i<length data. int (Suc i) < w \<longrightarrow> ma ! i = NaN \<and> up ! i = NaN \<and> lo ! i = NaN)"
    using bollinger_aligned by blast
  have bb_ret: "0 \<le> w \<longrightarrow> (\<exists>ma up lo. bollinger_bands data w k = Inr (ma, up, lo))"
    using bollinger_returns by blast
  have rsi: "\<forall>r. calculate_rsi data w = Inr r \<longrightarrow>
        length r = length data \<and> (\<forall>i<length data. int (Suc i) < w \<longrightarrow> r ! i = NaN)"
    using rsi_aligned by blast
  have rsi_ret: "0 \<le> w \<longrightarrow> (\<exists>r. calculate_rsi data w = Inr r)"
    using rsi_returns by blast
  have macd: "\<forall>m s h. calculate_macd data fp slp sgp = Inr (m, s, h) \<longrightarrow>
        length m = length data \<and> length s = length data \<and> length h = length data"
    using macd_aligned by blast
  have macd_ret: "1 \<le> fp \<and> 1 \<le> slp \<and> 1 \<le> sgp \<longrightarrow>
        (\<exists>m s h. calculate_macd data fp slp sgp = Inr (m, s, h))"
    using macd_returns by blast
  have st: "\<forall>kk d. calculate_stochastic data kp dp sk = Inr (kk, d) \<longrightarrow>
        length kk = length data \<and> length d = length data \<and>
        (\<forall>i<length data. int (Suc i) < kp \<longrightarrow> kk ! i = NaN \<and> d ! i = NaN)"
    using stochastic_aligned by blast
  have st_ret: "0 \<le> kp \<and> 0 \<le> dp \<and> 0 \<le> sk \<longrightarrow>
        (\<exists>kk d. calculate_stochastic data kp dp sk = Inr (kk, d))"
    using stochastic_returns by blast
  have atr: "\<forall>r. calculate_atr data w = Inr r \<longrightarrow>
        length r = length data \<and> (\<forall>i<length data. int (Suc i) < w \<longrightarrow> r ! i = NaN)"
    using atr_aligned by blast
  have atr_ret: "0 \<le> w \<longrightarrow> (\<exists>r. calculate_atr data w = Inr r)"
    using atr_returns by blast
  have obv: "\<forall>r. calculate_on_balance_volume data = Inr r \<longrightarrow> length r = length data"
    using obv_aligned by blast
  have obv_ret: "data \<noteq> [] \<longrightarrow> (\<exists>r. calculate_on_balance_volume data = Inr r)"
    using obv_returns by blast
  show ?thesis
    by (intro conjI sma sma_ret ema ema_ret bb bb_ret rsi rsi_ret macd macd_ret st st_ret
        atr atr_ret obv obv_ret)
qed

theorem alignment_witness:
  "(\<exists>r. rolling_mean 2 (col_Close demo_bars) = Inr r \<and> length r = 3 \<and> r ! 0 = NaN) \<and>
   (\<exists>r. ewm_mean 2 (col_Close demo_bars) = Inr r \<and> length r = 3) \<and>
   (\<exists>ma up lo. bollinger_bands demo_bars 2 2 = Inr (ma, up, lo) \<and>
      length ma = 3 \<and> length up = 3 \<and> length lo = 3 \<and> up ! 0 = NaN) \<and>
   (\<exists>r. calculate_rsi demo_bars 2 = Inr r \<and> length r = 3 \<and> r ! 0 = NaN) \<and>
   (\<exists>m s h. calculate_macd demo_bars 12 26 9 = Inr (m, s, h) \<and>
      length m = 3 \<and> length s = 3 \<and> length h = 3) \<and>
   (\<exists>kk d. calculate_stochastic demo_bars 2 1 1 = Inr (kk, d) \<and>
      length kk = 3 \<and> length d = 3 \<and> kk ! 0 = NaN) \<and>
   (\<exists>r. calculate_atr demo_bars 2 = Inr r \<and> length r = 3 \<and> r ! 0 = NaN) \<and>
   (\<exists>r. calculate_on_balance_volume demo_bars = Inr r \<and> length r = 3)"
proof -
  note a = alignment [where data = demo_bars and w = 2 and sp = 2 and k = 2 and fp = 12
      and slp = 26 and sgp = 9 and kp = 2 and dp = 1 and sk = 1]
  have len: "length demo_bars = 3" by (simp add: demo_bars_def)
  have ne: "demo_bars \<noteq> []" by (simp add: demo_bars_def)
  have c1: "\<exists>r. rolling_mean 2 (col_Close demo_bars) = Inr r \<and> length r = 3 \<and> r ! 0 = NaN"
    using a len by force
  have c2: "\<exists>r. ewm_mean 2 (col_Close demo_bars) = Inr r \<and> length r = 3"
    using a len by force
  have c3: "\<exists>ma up lo. bollinger_bands demo_bars 2 2 = Inr (ma, up, lo) \<and>
      length ma = 3 \<and> length up = 3 \<and> length lo = 3 \<and> up ! 0 = NaN"
    using a len by force
  have c4: "\<exists>r. calculate_rsi demo_bars 2 = Inr r \<and> length r = 3 \<and> r ! 0 = NaN"
    using a len by force
  have c5: "\<exists>m s h. calculate_macd demo_bars 12 26 9 = Inr (m, s, h) \<and>
      length m = 3 \<and> length s = 3 \<and> length h = 3"
    using a len by force
  have c6: "\<exists>kk d. calculate_stochastic demo_bars 2 1 1 = Inr (kk, d) \<and>
      length kk = 3 \<and> length d = 3 \<and> kk ! 0 = NaN"
    using a len by force
  have c7: "\<exists>r. calculate_atr demo_bars 2 = Inr r \<and> length r = 3 \<and> r ! 0 = NaN"
    using a len by force
  have c8: "\<exists>r. calculate_on_balance_volume demo_bars = Inr r \<and> length r = 3"
    using a len ne by force
  show ?thesis using c1 c2 c3 c4 c5 c6 c7 c8 by blast
qed

text \<open>
  Claim C5. When the bar at an index has its close between its low and its high and the
  highest high of the k-period window equals the lowest low of that window, the fast %K
  of the stochastic oscillator at that index is not-a-number: the division is zero by
  zero, it raises nothing and gives no infinity.
\<close>

theorem stochastic_flat_range:
  assumes "rolling_min kp (col_Low data) = Inr low_min"
    and "rolling_max kp (col_High data) = Inr high_max"
    and "\<forall>b\<in>set data. Low b \<le> Close b \<and> Close b \<le> High b"
    and "i < length data"
    and "high_max ! i = low_min ! i"
  shows "stochastic_fast_k data low_min high_max ! i = NaN"
proof -
  have llo: "length low_min = length data"
    using assms(1) by (simp add: rolling_min_def rolling_length length_cols)
  have lhi: "length high_max = length data"
    using assms(2) by (simp add: rolling_max_def rolling_length length_cols)
  have bar: "Low (data ! i) \<le> Close (data ! i)" "Close (data ! i) \<le> High (data ! i)"
    using assms(3,4) by simp_all
  note fk = nth_stochastic_fast_k [OF assms(4) llo lhi]
  show ?thesis
  proof (cases "low_min ! i = NaN")
    case True
    then show ?thesis using fk by (simp add: fl_sub_NaN_right fl_mul_NaN_right)
  next
    case False
    then obtain m where m: "low_min ! i = Fin m" "m \<le> Low (data ! i)"
      using rolling_min_low_at [OF assms(1,4)] by blast
    have "high_max ! i = Fin m" using assms(5) m(1) by simp
    then have "High (data ! i) \<le> m"
      using rolling_max_high_at [OF assms(2,4)] by auto
    then have "Close (data ! i) = m" using bar m(2) by linarith
    then show ?thesis
      using fk m(1) \<open>high_max ! i = Fin m\<close> by (simp add: fl_sub_def fl_inf_def)
  qed
qed

theorem stochastic_flat_range_witness:
  "rolling_min 2 (col_Low flat_bars) = Inr [NaN, Fin 5, Fin 5] \<and>
   rolling_max 2 (col_High flat_bars) = Inr [NaN, Fin 5, Fin 5] \<and>
   list_all (\<lambda>b. Low b \<le> Close b \<and> Close b \<le> High b) flat_bars \<and>
   (1::nat) < length flat_bars \<and>
   [NaN, Fin 5, Fin 5] ! 1 = [NaN, Fin 5, Fin (5::real)] ! 1 \<and>
   stochastic_fast_k flat_bars [NaN, Fin 5, Fin 5] [NaN, Fin 5, Fin 5] ! 1 = NaN"
proof -
  have lo: "rolling_min 2 (col_Low flat_bars) = Inr [NaN, Fin 5, Fin 5]"
    by (simp add: rolling_min_def rolling_def rolling_apply_def window_def win_min_def
        fl_min2_def col_Low_def flat_bars_def)
  have hi: "rolling_max 2 (col_High flat_bars) = Inr [NaN, Fin 5, Fin 5]"
    by (simp add: rolling_max_def rolling_def rolling_apply_def window_def win_max_def
        fl_max2_def col_High_def flat_bars_def)
  have bars: "\<forall>b\<in>set flat_bars. Low b \<le> Close b \<and> Close b \<le> High b"
    by (simp add: flat_bars_def)
  have i: "(1::nat) < length flat_bars" by (simp add: flat_bars_def)
  have eq: "[NaN, Fin 5, Fin 5] ! 1 = [NaN, Fin 5, Fin (5::real)] ! 1" by simp
  have all: "list_all (\<lambda>b. Low b \<le> Close b \<and> Close b \<le> High b) flat_bars"
    by (simp add: flat_bars_def)
  from stochastic_flat_range [OF lo hi bars i eq] lo hi all i eq show ?thesis by blast
qed

text \<open>
  Claim C9. For every series, window and band multiplier that is not negative, at every
  index where the three Bollinger series are numbers, the lower band is at most the middle
  band and the middle band is at most the upper band. There the middle band is the mean
  of the closes of the window, and the bands are the middle band plus and minus the
  multiplier times the sample standard deviation of the window, whose divisor is the
  window length minus one.
\<close>

theorem bollinger_ordering:
  assumes "bollinger_bands data w k = Inr (ma, up, lo)"
    and "0 \<le> k"
    and "i < length data"
    and "ma ! i = Fin m" and "up ! i = Fin u" and "lo ! i = Fin l"
  shows "l \<le> m \<and> m \<le> u \<and>
         (\<exists>win s. win = take (nat w) (drop (Suc i - nat w) (map Close data)) \<and>
            length win = nat w \<and> 2 \<le> nat w \<and>
            m = sum_list win / real (nat w) \<and>
            s = sqrt (sum_list (map (\<lambda>v. (v - m) ^ 2) win) / real (nat w - 1)) \<and>
            u = m + s * k \<and> l = m - s * k)"
proof -
  from assms(1) obtain std where
    ma: "rolling_mean w (col_Close data) = Inr ma" and
    std: "rolling_std w (col_Close data) = Inr std" and
    up: "up = map (\<lambda>(m, s). fl_add m (fl_mul s (Fin k))) (zip ma std)" and
    lo: "lo = map (\<lambda>(m, s). fl_sub m (fl_mul s (Fin k))) (zip ma std)"
    by (auto simp: bollinger_eq_Inr)
  let ?win = "take (nat w) (drop (Suc i - nat w) (map Close data))"
  have ma_eq: "ma = rolling_apply win_mean (nat w) (col_Close data)"
    using ma by (simp add: rolling_mean_def rolling_eq_Inr)
  have std_eq: "std = rolling_apply win_std (nat w) (col_Close data)"
    using std by (simp add: rolling_std_def rolling_eq_Inr)
  have lma: "length ma = length data" by (simp add: ma_eq length_rolling_apply length_cols)
  have lstd: "length std = length data" by (simp add: std_eq length_rolling_apply length_cols)
  have full: "\<not> (nat w = 0 \<or> Suc i < nat w)"
    using assms(4) rolling_close_at [OF assms(3), of win_mean w] by (auto simp: ma_eq)
  then have w: "0 < nat w" "nat w \<le> Suc i" by auto
  have lwin: "length ?win = nat w" using w assms(3) by simp
  have ne: "?win \<noteq> []" using lwin w by auto
  have m: "m = sum_list ?win / real (nat w)"
    using assms(4) rolling_close_at [OF assms(3), of win_mean w] full win_mean_Fin [OF ne] lwin
    by (simp add: ma_eq)
  have up_i: "fl_add (Fin m) (fl_mul (std ! i) (Fin k)) = Fin u"
    using assms(3,4,5) lma lstd by (simp add: up)
  have lo_i: "fl_sub (Fin m) (fl_mul (std ! i) (Fin k)) = Fin l"
    using assms(3,4,6) lma lstd by (simp add: lo)
  from fl_add_Fin_is_Fin [OF up_i] obtain p where
    p: "fl_mul (std ! i) (Fin k) = Fin p" "u = m + p" by blast
  from fl_mul_Fin_right_is_Fin [OF p(1)] obtain s where
    s: "std ! i = Fin s" "p = s * k" by blast
  have l: "l = m - s * k" using lo_i p(1) s(2) by (simp add: fl_sub_def)
  have std_i: "std ! i = win_std (map Fin ?win)"
    using rolling_close_at [OF assms(3), of win_std w] full by (simp add: std_eq)
  have two: "2 \<le> nat w"
    using std_i s(1) lwin by (auto simp: win_std_Fin split: if_splits)
  have s_eq: "s = sqrt (sum_list (map (\<lambda>v. (v - m) ^ 2) ?win) / real (nat w - 1))"
  proof -
    have "Fin s = win_std (map Fin ?win)" using std_i s(1) by simp
    also have "\<dots> = (if nat w < 2 then NaN
        else Fin (sqrt (sum_list (map (\<lambda>v. (v - sum_list ?win / real (nat w)) ^ 2) ?win)
                         / real (nat w - 1))))"
      by (simp only: win_std_Fin lwin)
    also have "\<dots> = Fin (sqrt (sum_list (map (\<lambda>v. (v - sum_list ?win / real (nat w)) ^ 2) ?win)
                         / real (nat w - 1)))"
      using two by (simp only: if_False not_less [symmetric])
    finally show ?thesis unfolding m by (simp only: fl.inject)
  qed
  have "0 \<le> sum_list (map (\<lambda>v. (v - m) ^ 2) ?win) / real (nat w - 1)"
    using sum_list_squares_nonneg [of m ?win] by simp
  then have s0: "0 \<le> s" using s_eq by simp
  have sk: "0 \<le> s * k" using s0 assms(2) by simp
  have ord: "l \<le> m \<and> m \<le> u" using l p(2) s(2) sk by simp
  show ?thesis using ord lwin two m s_eq p(2) s(2) l by blast
qed

theorem bollinger_ordering_witness:
  "bollinger_bands demo_bars 3 2 =
     Inr ([NaN, NaN, Fin 100], [NaN, NaN, Fin 102], [NaN, NaN, Fin 98]) \<and>
   (0::real) \<le> 2 \<and> (2::nat) < length demo_bars \<and>
   (98::real) \<le> 100 \<and> (100::real) \<le> 102 \<and>
   (\<exists>win s. win = take (nat 3) (drop (Suc 2 - nat 3) (map Close demo_bars)) \<and>
      length win = nat 3 \<and> 2 \<le> nat 3 \<and>
      (100::real) = sum_list win / real (nat 3) \<and>
      s = sqrt (sum_list (map (\<lambda>v. (v - 100) ^ 2) win) / real (nat 3 - 1)) \<and>
      (102::real) = 100 + s * 2 \<and> (98::real) = 100 - s * 2)"
proof -
  have b: "bollinger_bands demo_bars 3 2 =
      Inr ([NaN, NaN, Fin 100], [NaN, NaN, Fin 102], [NaN, NaN, Fin 98])"
    by (simp add: bollinger_bands_def rolling_mean_def rolling_std_def rolling_def
        rolling_apply_def window_def win_mean_def win_std_def fl_sum_def fl_sub_def
        bind_err_def col_Close_def demo_bars_def Let_def)
  have k: "(0::real) \<le> 2" by simp
  have i: "(2::nat) < length demo_bars" by (simp add: demo_bars_def)
  from bollinger_ordering [OF b k i, of 100 102 98] b k i show ?thesis by simp
qed

text \<open>
  Claim C3. For every series of 30 bars whose closes begin with 100, 101, 99, 102, the
  RSI with window 14 is a number at index 13, and it is the value of the manual gain and
  loss computation over the same closes. The scenario series of the specification is
  such a series, whatever its elided closes are.
\<close>

theorem rsi_scenario:
  assumes "length data = 30"
    and "take 4 (map Close data) = [100, 101, 99, 102]"
  shows "\<exists>r. calculate_rsi data 14 = Inr r \<and>
           r ! 13 = Fin (manual_rsi (map Close data) 14 13)"
proof -
  let ?cs = "map Close data"
  let ?ag = "manual_avg manual_gain ?cs 14 13"
  let ?al = "manual_avg manual_loss ?cs 14 13"
  have i: "13 < length data" using assms(1) by simp
  from calculate_rsi_at [OF i, of 14] obtain r where
    r: "calculate_rsi data 14 = Inr r" and
    ri: "r ! 13 = rsi_value (Fin ?ag) (Fin ?al)"
    by auto
  have c1: "?cs ! 1 = 101"
  proof -
    have "take 4 ?cs ! 1 = ?cs ! 1" by (rule nth_take) simp
    then show ?thesis using assms(2) by simp
  qed
  have c2: "?cs ! 2 = 99"
  proof -
    have "take 4 ?cs ! 2 = ?cs ! 2" by (rule nth_take) simp
    then show ?thesis using assms(2) by simp
  qed
  have loss2: "manual_loss ?cs 2 = 2"
    using c1 c2 by (simp add: manual_loss_def del: nth_map)
  have mem: "manual_loss ?cs 2 \<in> set (map (manual_loss ?cs) [Suc 13 - 14..<Suc 13])"
    by (simp del: nth_map map_map)
  have "manual_loss ?cs 2 \<le> sum_list (map (manual_loss ?cs) [Suc 13 - 14..<Suc 13])"
    by (rule elem_le_sum_list_nonneg [OF _ mem]) (auto simp: manual_loss_nonneg)
  then have "0 < sum_list (map (manual_loss ?cs) [Suc 13 - 14..<Suc 13])"
    using loss2 by linarith
  then have al: "0 < ?al" unfolding manual_avg_def by simp
  have ag: "0 \<le> ?ag" by (rule manual_avg_gain_nonneg)
  have "r ! 13 = Fin (100 - 100 / (1 + ?ag / ?al))"
    using ri rsi_value_regular [OF ag al] by simp
  then have "r ! 13 = Fin (manual_rsi ?cs 14 13)"
    by (simp only: manual_rsi_def Let_def)
  then show ?thesis using r by blast
qed

theorem rsi_scenario_witness:
  "length scenario_bars = 30 \<and>
   take 4 (map Close scenario_bars) = [100, 101, 99, 102] \<and>
   manual_rsi (map Close scenario_bars) 14 13 = 68 \<and>
   (\<exists>r. calculate_rsi scenario_bars 14 = Inr r \<and> r ! 13 = Fin 68)"
proof -
  have cs: "map Close scenario_bars = scenario_closes"
    by (simp add: scenario_bars_def scenario_closes_def)
  have len: "length scenario_bars = 30"
    by (simp add: scenario_bars_def scenario_closes_def)
  have pre: "take 4 (map Close scenario_bars) = [100, 101, 99, 102]"
    unfolding cs by (simp add: scenario_closes_def)
  have val: "manual_rsi (map Close scenario_bars) 14 13 = 68"
    unfolding cs
    by (simp add: manual_rsi_def manual_avg_def manual_gain_def manual_loss_def
        scenario_closes_def Let_def upt_conv_Cons)
  from rsi_scenario [OF len pre] val len pre show ?thesis by simp
qed

text \<open>
  Claim C4, amended. At every index where the window mean of the losses is zero, the
  window mean of the gains is a number that is not negative, nothing is raised, and the
  RSI is exactly 100 when the mean gain is positive; when the mean gain is zero as well
  (no close of the window differs from the one before), the RSI is not-a-number. The code
  has no special case: the value 100 is what the division by zero gives in IEEE
  arithmetic, and zero divided by zero gives not-a-number.
\<close>

theorem rsi_zero_loss:
  assumes "rolling_mean w (rsi_gain data) = Inr avg_gain"
    and "rolling_mean w (rsi_loss data) = Inr avg_loss"
    and "i < length data"
    and "avg_loss ! i = Fin 0"
  shows "\<exists>r g. calculate_rsi data w = Inr r \<and> avg_gain ! i = Fin g \<and> 0 \<le> g \<and>
           (0 < g \<longrightarrow> r ! i = Fin 100) \<and> (g = 0 \<longrightarrow> r ! i = NaN)"
proof -
  let ?cs = "map Close data"
  have ag: "avg_gain = rolling_apply win_mean (nat w) (rsi_gain data)"
    using assms(1) by (simp add: rolling_mean_def rolling_eq_Inr)
  have al: "avg_loss = rolling_apply win_mean (nat w) (rsi_loss data)"
    using assms(2) by (simp add: rolling_mean_def rolling_eq_Inr)
  have r: "calculate_rsi data w = Inr (map (\<lambda>(g, l). rsi_value g l) (zip avg_gain avg_loss))"
    using assms(1,2) by (simp add: calculate_rsi_def bind_err_Inr)
  have full: "\<not> (nat w = 0 \<or> Suc i < nat w)"
  proof
    assume "nat w = 0 \<or> Suc i < nat w"
    then have "avg_loss ! i = NaN"
      unfolding al rsi_loss_manual
      using rolling_apply_Fin_at
        [of i "map (manual_loss ?cs) [0..<length data]" win_mean "nat w"] assms(3)
      by simp
    then show False using assms(4) by simp
  qed
  then have w: "0 < nat w" "nat w \<le> Suc i" by auto
  let ?g = "manual_avg manual_gain ?cs (nat w) i"
  have gi: "avg_gain ! i = Fin ?g"
    unfolding ag rsi_gain_manual by (rule rolling_mean_manual_at [OF assms(3) w])
  have g0: "0 \<le> ?g" by (rule manual_avg_gain_nonneg)
  have ri: "map (\<lambda>(g, l). rsi_value g l) (zip avg_gain avg_loss) ! i = rsi_value (Fin ?g) (Fin 0)"
    using assms(3,4) gi
    by (simp add: ag al length_rolling_apply length_rsi_gain length_rsi_loss)
  have pos: "0 < ?g \<longrightarrow> map (\<lambda>(g, l). rsi_value g l) (zip avg_gain avg_loss) ! i = Fin 100"
    using ri rsi_value_zero_loss by simp
  have zero: "?g = 0 \<longrightarrow> map (\<lambda>(g, l). rsi_value g l) (zip avg_gain avg_loss) ! i = NaN"
    using ri rsi_value_flat by simp
  show ?thesis using r gi g0 pos zero by blast
qed

theorem rsi_zero_loss_witness:
  "rolling_mean 2 (rsi_gain rising_bars) = Inr [NaN, Fin (1 / 2), Fin 1] \<and>
   rolling_mean 2 (rsi_loss rising_bars) = Inr [NaN, Fin 0, Fin 0] \<and>
   (1::nat) < length rising_bars \<and>
   (\<exists>r. calculate_rsi rising_bars 2 = Inr r \<and> r ! 1 = Fin 100)"
proof -
  have g: "rolling_mean 2 (rsi_gain rising_bars) = Inr [NaN, Fin (1 / 2), Fin 1]"
    by (simp add: rolling_mean_def rolling_def rolling_apply_def window_def win_mean_def
        fl_sum_def rsi_gain_def diff_def col_Close_def rising_bars_def fl_sub_def)
  have l: "rolling_mean 2 (rsi_loss rising_bars) = Inr [NaN, Fin 0, Fin 0]"
    by (simp add: rolling_mean_def rolling_def rolling_apply_def window_def win_mean_def
        fl_sum_def rsi_loss_def diff_def col_Close_def rising_bars_def fl_sub_def)
  have i: "(1::nat) < length rising_bars" by (simp add: rising_bars_def)
  have z: "[NaN, Fin 0, Fin 0] ! 1 = Fin (0::real)" by simp
  from rsi_zero_loss [OF g l i z] obtain r q where
    r: "calculate_rsi rising_bars 2 = Inr r" and
    q: "[NaN, Fin (1 / 2), Fin 1] ! 1 = Fin q" and
    p: "0 < q \<longrightarrow> r ! 1 = Fin 100"
    by blast
  have "q = 1 / 2" using q by simp
  then have "r ! 1 = Fin 100" using p by simp
  then show ?thesis using g l i r by blast
qed

text \<open>
  The claim as stated fails on a flat series: with window 2 the mean loss at index 1 is
  zero and the mean gain there is a number, yet the RSI is not-a-number, not 100.
\<close>

theorem rsi_zero_loss_counterexample:
  "rolling_mean 2 (rsi_loss flat_bars) = Inr [NaN, Fin 0, Fin 0] \<and>
   rolling_mean 2 (rsi_gain flat_bars) = Inr [NaN, Fin 0, Fin 0] \<and>
   calculate_rsi flat_bars 2 = Inr [NaN, NaN, NaN] \<and>
   [NaN, NaN, NaN] ! 1 \<noteq> Fin 100"
  by (simp add: calculate_rsi_def rsi_value_def bind_err_def rolling_mean_def rolling_def
      rolling_apply_def window_def win_mean_def fl_sum_def rsi_gain_def rsi_loss_def
      diff_def col_Close_def flat_bars_def fl_sub_def fl_inf_def)

text \<open>
  Claim C6. For every requested indicator set, the chart builder hands the weight 0.5
  for panel 0 to the subplot grid and, when there are oscillator panels, an equal share
  of the remaining 0.5 for each of them. In every figure it returns, the relative row
  heights of the grid sum to 1 and panel 0 has no less than the combined weight of the
  other panels: with oscillator panels panel 0 has 0.5 and each oscillator panel its equal
  share of 0.5, and with no oscillator panel the single weight 0.5 is normalised by the
  grid, so that panel 0 has the full height. A figure is returned for every non-empty
  series. The shares are exact fractions in the model.
\<close>

theorem panel_heights:
  "(\<forall>data fig. create_technical_chart data (Some inds) = Inr fig \<longrightarrow>
      rows fig = subplot_count inds \<and>
      length (row_heights fig) = subplot_count inds \<and>
      sum_list (row_heights fig) = 1 \<and>
      sum_list (tl (row_heights fig)) \<le> row_heights fig ! 0 \<and>
      (1 < subplot_count inds \<longrightarrow>
         row_heights fig ! 0 = 1 / 2 \<and>
         (\<forall>j. 1 \<le> j \<and> j < subplot_count inds \<longrightarrow>
            row_heights fig ! j = (1 / 2) / real (subplot_count inds - 1))) \<and>
      (subplot_count inds = 1 \<longrightarrow> row_heights fig = [1])) \<and>
   (subplot_count inds = 1 \<longleftrightarrow>
      ''rsi'' \<notin> set inds \<and> ''macd'' \<notin> set inds \<and> ''stoch'' \<notin> set inds \<and>
      ''atr'' \<notin> set inds \<and> ''obv'' \<notin> set inds) \<and>
   chart_heights (subplot_count inds) ! 0 = 1 / 2 \<and>
   (\<forall>j. 1 \<le> j \<and> j < subplot_count inds \<longrightarrow>
      chart_heights (subplot_count inds) ! j = (1 / 2) / real (subplot_count inds - 1)) \<and>
   (\<forall>data. data \<noteq> [] \<longrightarrow> (\<exists>fig. create_technical_chart data (Some inds) = Inr fig))"
proof -
  let ?n = "subplot_count inds"
  have pos: "0 < ?n" by (rule subplot_count_pos)
  have figs: "\<forall>data fig. create_technical_chart data (Some inds) = Inr fig \<longrightarrow>
      rows fig = ?n \<and> length (row_heights fig) = ?n \<and> sum_list (row_heights fig) = 1 \<and>
      sum_list (tl (row_heights fig)) \<le> row_heights fig ! 0 \<and>
      (1 < ?n \<longrightarrow>
         row_heights fig ! 0 = 1 / 2 \<and>
         (\<forall>j. 1 \<le> j \<and> j < ?n \<longrightarrow> row_heights fig ! j = (1 / 2) / real (?n - 1))) \<and>
      (?n = 1 \<longrightarrow> row_heights fig = [1])"
  proof (intro allI impI)
    fix data fig
    assume res: "create_technical_chart data (Some inds) = Inr fig"
    from chart_returns_or_raises [OF res] have
      rw: "rows fig = ?n" and
      hw: "row_heights fig = normalise_heights (chart_heights ?n)"
      by simp_all
    show "rows fig = ?n \<and> length (row_heights fig) = ?n \<and> sum_list (row_heights fig) = 1 \<and>
      sum_list (tl (row_heights fig)) \<le> row_heights fig ! 0 \<and>
      (1 < ?n \<longrightarrow>
         row_heights fig ! 0 = 1 / 2 \<and>
         (\<forall>j. 1 \<le> j \<and> j < ?n \<longrightarrow> row_heights fig ! j = (1 / 2) / real (?n - 1))) \<and>
      (?n = 1 \<longrightarrow> row_heights fig = [1])"
    proof (cases "1 < ?n")
      case True
      have eq: "row_heights fig = chart_heights ?n"
        using hw normalise_chart_heights_many [OF True] by simp
      have l: "length (row_heights fig) = ?n"
        unfolding eq using pos by (rule length_chart_heights)
      have s: "sum_list (row_heights fig) = 1"
        unfolding eq using True by (rule chart_heights_sum)
      have f: "row_heights fig ! 0 = 1 / 2"
        unfolding eq by (simp add: chart_heights_def)
      have t: "sum_list (tl (row_heights fig)) = 1 / 2"
        unfolding eq using True by (rule chart_heights_tl_sum)
      have o: "\<forall>j. 1 \<le> j \<and> j < ?n \<longrightarrow> row_heights fig ! j = (1 / 2) / real (?n - 1)"
        unfolding eq using nth_chart_heights by blast
      show ?thesis using rw l s f t o True by simp
    next
      case False
      then have one: "?n = 1" using pos by simp
      have eq: "row_heights fig = [1]"
        using hw normalise_chart_heights_one by (simp add: one)
      show ?thesis using rw one eq by simp
    qed
  qed
  have none: "?n = 1 \<longleftrightarrow>
      ''rsi'' \<notin> set inds \<and> ''macd'' \<notin> set inds \<and> ''stoch'' \<notin> set inds \<and>
      ''atr'' \<notin> set inds \<and> ''obv'' \<notin> set inds"
    by (simp add: subplot_count_def)
  have first: "chart_heights ?n ! 0 = 1 / 2" by (simp add: chart_heights_def)
  have others: "\<forall>j. 1 \<le> j \<and> j < ?n \<longrightarrow> chart_heights ?n ! j = (1 / 2) / real (?n - 1)"
    using nth_chart_heights by blast
  have returns: "\<forall>data. data \<noteq> [] \<longrightarrow> (\<exists>fig. create_technical_chart data (Some inds) = Inr fig)"
  proof (intro allI impI)
    fix data :: dataframe
    assume "data \<noteq> []"
    then have "data \<noteq> [] \<or>
        (''rsi'' \<notin> set inds \<and> ''stoch'' \<notin> set inds \<and> ''obv'' \<notin> set inds)" by simp
    from chart_layout [OF this] show "\<exists>fig. create_technical_chart data (Some inds) = Inr fig"
      by blast
  qed
  show ?thesis using figs none first others returns by blast
qed

theorem panel_heights_witness:
  "demo_bars \<noteq> [] \<and>
   (\<exists>fig. create_technical_chart demo_bars (Some [''rsi'', ''macd'']) = Inr fig \<and>
      rows fig = 3 \<and> row_heights fig = [1 / 2, 1 / 4, 1 / 4] \<and>
      sum_list (row_heights fig) = 1) \<and>
   (\<exists>fig. create_technical_chart demo_bars (Some [''sma'']) = Inr fig \<and>
      rows fig = 1 \<and> row_heights fig = [1] \<and> sum_list (row_heights fig) = 1)"
proof -
  have ne: "demo_bars \<noteq> []" by (simp add: demo_bars_def)
  have n3: "subplot_count [''rsi'', ''macd''] = 3" by (simp add: subplot_count_def)
  have n1: "subplot_count [''sma''] = 1" by (simp add: subplot_count_def)
  note a = panel_heights [of "[''rsi'', ''macd'']"]
  note b = panel_heights [of "[''sma'']"]
  from a ne obtain fa where
    fa: "create_technical_chart demo_bars (Some [''rsi'', ''macd'']) = Inr fa" by blast
  from b ne obtain fb where
    fb: "create_technical_chart demo_bars (Some [''sma'']) = Inr fb" by blast
  have ra: "rows fa = 3" using a fa n3 by simp
  have la: "length (row_heights fa) = 3" using a fa n3 by simp
  have sa: "sum_list (row_heights fa) = 1" using a fa by blast
  have a0: "row_heights fa ! 0 = 1 / 2" using a fa n3 by simp
  have aj: "\<forall>j. 1 \<le> j \<and> j < 3 \<longrightarrow> row_heights fa ! j = (1 / 2) / real (3 - 1 :: nat)"
    using a fa n3 by simp
  have a1: "row_heights fa ! 1 = 1 / 4" using aj by simp
  have a2: "row_heights fa ! 2 = 1 / 4" using aj by simp
  have ha: "row_heights fa = [1 / 2, 1 / 4, 1 / 4]"
  proof (rule nth_equalityI)
    show "length (row_heights fa) = length [1 / 2, 1 / 4, 1 / 4 :: real]" using la by simp
  next
    fix i
    assume "i < length (row_heights fa)"
    then have "i = 0 \<or> i = 1 \<or> i = 2" using la by auto
    then show "row_heights fa ! i = [1 / 2, 1 / 4, 1 / 4] ! i" using a0 a1 a2 by auto
  qed
  have rb: "rows fb = 1" using b fb n1 by simp
  have hb: "row_heights fb = [1]" using b fb n1 by simp
  have sb: "sum_list (row_heights fb) = 1" using hb by simp
  show ?thesis using ne fa ra ha sa fb rb hb sb by blast
qed

text \<open>
  Claim C10. Called without an indicator list, the chart builder does what it does for
  the list sma, ema, bollinger: it returns a figure with exactly one row, which has the
  full height, and all its traces (the price candles, the volume bars, the two moving
  averages, the exponential moving average and the five Bollinger traces) are in row 1,
  which is panel 0. This holds for every series, the empty one included.
\<close>

theorem default_indicators:
  "create_technical_chart data None =
     create_technical_chart data (Some [''sma'', ''ema'', ''bollinger'']) \<and>
   (\<exists>fig. create_technical_chart data None = Inr fig \<and> rows fig = 1 \<and>
      row_heights fig = [1] \<and>
      trace_info fig =
        [(''Price'', length data, 1), (''Volume'', length data, 1),
         (''50-day MA'', length data, 1), (''200-day MA'', length data, 1),
         (''20-day EMA'', length data, 1), (''20-day MA'', length data, 1),
         (''Upper Band'', length data, 1), (''Lower Band'', length data, 1),
         (''Upper Band'', length data, 1), (''Lower Band'', length data, 1)] \<and>
      axis_rows fig = [(''Price'', 1)])"
proof -
  let ?inds = "[''sma'', ''ema'', ''bollinger'']"
  have eq: "create_technical_chart data None = create_technical_chart data (Some ?inds)"
    by (simp add: create_technical_chart_def)
  have ok: "data \<noteq> [] \<or> (''rsi'' \<notin> set ?inds \<and> ''stoch'' \<notin> set ?inds \<and> ''obv'' \<notin> set ?inds)"
    by simp
  from chart_layout [OF ok] obtain fig where
    r: "create_technical_chart data (Some ?inds) = Inr fig" and
    n: "rows fig = subplot_count ?inds" and
    h: "row_heights fig = normalise_heights (chart_heights (subplot_count ?inds))" and
    t: "trace_info fig = chart_trace_info (length data) ?inds" and
    a: "axis_rows fig = chart_axis_rows ?inds"
    by blast
  have n1: "subplot_count ?inds = 1" by (simp add: subplot_count_def)
  have h1: "normalise_heights (chart_heights 1) = [1]" by (rule normalise_chart_heights_one)
  have t1: "chart_trace_info (length data) ?inds =
        [(''Price'', length data, 1), (''Volume'', length data, 1),
         (''50-day MA'', length data, 1), (''200-day MA'', length data, 1),
         (''20-day EMA'', length data, 1), (''20-day MA'', length data, 1),
         (''Upper Band'', length data, 1), (''Lower Band'', length data, 1),
         (''Upper Band'', length data, 1), (''Lower Band'', length data, 1)]"
    by (simp add: chart_trace_info_def overlay_info_def oscillator_info_def)
  have a1: "chart_axis_rows ?inds = [(''Price'', 1)]"
    by (simp add: chart_axis_rows_def oscillator_info_def)
  have "create_technical_chart data None = Inr fig" using eq r by simp
  moreover have "rows fig = 1" using n n1 by simp
  moreover have "row_heights fig = [1]" using h n1 h1 by simp
  moreover note t [unfolded t1] a [unfolded a1]
  ultimately show ?thesis using eq by blast
qed

theorem default_indicators_witness:
  "create_technical_chart demo_bars None =
     create_technical_chart demo_bars (Some [''sma'', ''ema'', ''bollinger'']) \<and>
   (\<exists>fig. create_technical_chart demo_bars None = Inr fig \<and> rows fig = 1 \<and>
      map (\<lambda>(nm, l, r). r) (trace_info fig) = [1, 1, 1, 1, 1, 1, 1, 1, 1, 1])"
proof -
  from default_indicators [of demo_bars] obtain fig where
    e: "create_technical_chart demo_bars None =
        create_technical_chart demo_bars (Some [''sma'', ''ema'', ''bollinger''])" and
    r: "create_technical_chart demo_bars None = Inr fig" and
    n: "rows fig = 1" and
    t: "trace_info fig =
        [(''Price'', length demo_bars, 1), (''Volume'', length demo_bars, 1),
         (''50-day MA'', length demo_bars, 1), (''200-day MA'', length demo_bars, 1),
         (''20-day EMA'', length demo_bars, 1), (''20-day MA'', length demo_bars, 1),
         (''Upper Band'', length demo_bars, 1), (''Lower Band'', length demo_bars, 1),
         (''Upper Band'', length demo_bars, 1), (''Lower Band'', length demo_bars, 1)]"
    by blast
  have m: "map (\<lambda>(nm, l, r). r) (trace_info fig) = [1, 1, 1, 1, 1, 1, 1, 1, 1, 1]"
    unfolding t by simp
  have "\<exists>fig. create_technical_chart demo_bars None = Inr fig \<and> rows fig = 1 \<and>
      map (\<lambda>(nm, l, r). r) (trace_info fig) = [1, 1, 1, 1, 1, 1, 1, 1, 1, 1]"
    using r n m by (intro exI [of _ fig]) simp
  then show ?thesis using e by simp
qed

text \<open>
  Claim C1, amended. The chart builder has no test for an empty series and no short
  cut: on a series without bars it runs the requested indicators on the empty series.
  When the request holds none of rsi, stoch and obv, it returns without raising a figure
  with the usual rows, in which every trace, the indicator traces included, has a series
  of length 0. When the request holds rsi, stoch or obv, it raises IndexError.
\<close>

theorem empty_series_chart:
  "((''rsi'' \<in> set inds \<or> ''stoch'' \<in> set inds \<or> ''obv'' \<in> set inds) \<longrightarrow>
      create_technical_chart [] (Some inds) = Inl IndexError) \<and>
   (''rsi'' \<notin> set inds \<and> ''stoch'' \<notin> set inds \<and> ''obv'' \<notin> set inds \<longrightarrow>
      (\<exists>fig. create_technical_chart [] (Some inds) = Inr fig \<and>
         rows fig = subplot_count inds \<and>
         trace_info fig = chart_trace_info 0 inds \<and>
         list_all (\<lambda>(nm, l, r). l = 0) (trace_info fig) \<and>
         axis_rows fig = chart_axis_rows inds))"
proof (intro conjI impI)
  assume "''rsi'' \<in> set inds \<or> ''stoch'' \<in> set inds \<or> ''obv'' \<in> set inds"
  then show "create_technical_chart [] (Some inds) = Inl IndexError"
    by (rule chart_empty_raises)
next
  assume no: "''rsi'' \<notin> set inds \<and> ''stoch'' \<notin> set inds \<and> ''obv'' \<notin> set inds"
  then have ok: "([] :: dataframe) \<noteq> [] \<or>
      (''rsi'' \<notin> set inds \<and> ''stoch'' \<notin> set inds \<and> ''obv'' \<notin> set inds)"
    by simp
  from chart_layout [OF ok] obtain fig where
    r: "create_technical_chart [] (Some inds) = Inr fig" and
    n: "rows fig = subplot_count inds" and
    t: "trace_info fig = chart_trace_info 0 inds" and
    a: "axis_rows fig = chart_axis_rows inds"
    by auto
  have z: "list_all (\<lambda>(nm, l, r). l = 0) (chart_trace_info 0 inds)"
    using no by (simp add: chart_trace_info_def overlay_info_def oscillator_info_def)
  show "\<exists>fig. create_technical_chart [] (Some inds) = Inr fig \<and>
         rows fig = subplot_count inds \<and>
         trace_info fig = chart_trace_info 0 inds \<and>
         list_all (\<lambda>(nm, l, r). l = 0) (trace_info fig) \<and>
         axis_rows fig = chart_axis_rows inds"
    using r n t a z by auto
qed

theorem empty_series_chart_witness:
  "create_technical_chart [] (Some [''rsi'']) = Inl IndexError \<and>
   (\<exists>fig. create_technical_chart [] (Some [''sma'', ''macd'']) = Inr fig \<and>
      rows fig = 2 \<and>
      trace_info fig =
        [(''Price'', 0, 1), (''Volume'', 0, 1), (''50-day MA'', 0, 1), (''200-day MA'', 0, 1),
         (''MACD'', 0, 2), (''Signal'', 0, 2), (''Histogram'', 0, 2)] \<and>
      axis_rows fig = [(''MACD'', 2), (''Price'', 1)])"
proof -
  note a = empty_series_chart [of "[''rsi'']"]
  note b = empty_series_chart [of "[''sma'', ''macd'']"]
  have r: "create_technical_chart [] (Some [''rsi'']) = Inl IndexError"
    using a by simp
  have n: "subplot_count [''sma'', ''macd''] = 2" by (simp add: subplot_count_def)
  have t: "chart_trace_info 0 [''sma'', ''macd''] =
        [(''Price'', 0, 1), (''Volume'', 0, 1), (''50-day MA'', 0, 1), (''200-day MA'', 0, 1),
         (''MACD'', 0, 2), (''Signal'', 0, 2), (''Histogram'', 0, 2)]"
    by (simp add: chart_trace_info_def overlay_info_def oscillator_info_def osc_row_values)
  have x: "chart_axis_rows [''sma'', ''macd''] = [(''MACD'', 2), (''Price'', 1)]"
    by (simp add: chart_axis_rows_def oscillator_info_def osc_row_values)
  from b obtain fig where
    "create_technical_chart [] (Some [''sma'', ''macd'']) = Inr fig"
    "rows fig = subplot_count [''sma'', ''macd'']"
    "trace_info fig = chart_trace_info 0 [''sma'', ''macd'']"
    "axis_rows fig = chart_axis_rows [''sma'', ''macd'']"
    by auto
  then show ?thesis using r n t x by auto
qed

text \<open>
  The claim as stated fails for a request with the OBV: on the empty series the chart
  builder raises IndexError, from the store at position 0 of the empty OBV series.
\<close>

theorem empty_series_chart_counterexample:
  "create_technical_chart [] (Some [''obv'']) = Inl IndexError"
  by (rule chart_empty_raises) simp

text \<open>
  Claim C2, amended. For every non-empty series and every requested indicator list, each
  requested oscillator gets a row of its own below the price chart, and the rows follow
  the fixed order RSI, MACD, stochastic, ATR, OBV of the chart builder, not the order of
  the request: the row of an oscillator is 2 plus the number of requested oscillators in
  front of it in the fixed order, its y axis and all its traces are in that row, and the
  rows used are 2, 3 and so on up to the number of rows of the figure. Row 1 is panel 0.
\<close>

theorem oscillator_rows:
  assumes "data \<noteq> []"
  shows "\<exists>fig. create_technical_chart data (Some inds) = Inr fig \<and>
           rows fig = subplot_count inds \<and>
           axis_rows fig = chart_axis_rows inds \<and>
           trace_info fig = chart_trace_info (length data) inds \<and>
           map snd (axis_rows fig) = [2..<Suc (subplot_count inds)] @ [1]"
proof -
  have ok: "data \<noteq> [] \<or> (''rsi'' \<notin> set inds \<and> ''stoch'' \<notin> set inds \<and> ''obv'' \<notin> set inds)"
    using assms by simp
  from chart_layout [OF ok] obtain fig where
    r: "create_technical_chart data (Some inds) = Inr fig" and
    n: "rows fig = subplot_count inds" and
    t: "trace_info fig = chart_trace_info (length data) inds" and
    a: "axis_rows fig = chart_axis_rows inds"
    by blast
  have "map snd (chart_axis_rows inds) = [2..<Suc (subplot_count inds)] @ [1]"
    by (simp add: chart_axis_rows_def oscillator_info_def osc_row_values subplot_count_def
        upt_rec)
  then show ?thesis using r n t a by auto
qed

theorem oscillator_rows_witness:
  "demo_bars \<noteq> [] \<and>
   (\<exists>fig. create_technical_chart demo_bars (Some [''sma'', ''ema'', ''rsi'', ''macd'']) = Inr fig \<and>
      rows fig = 3 \<and>
      axis_rows fig = [(''RSI'', 2), (''MACD'', 3), (''Price'', 1)] \<and>
      trace_info fig =
        [(''Price'', 3, 1), (''Volume'', 3, 1), (''50-day MA'', 3, 1), (''200-day MA'', 3, 1),
         (''20-day EMA'', 3, 1),
         (''RSI (14)'', 3, 2), (''Overbought'', 2, 2), (''Oversold'', 2, 2), (''Middle'', 2, 2),
         (''MACD'', 3, 3), (''Signal'', 3, 3), (''Histogram'', 3, 3)])"
proof -
  let ?inds = "[''sma'', ''ema'', ''rsi'', ''macd'']"
  have ne: "demo_bars \<noteq> []" by (simp add: demo_bars_def)
  have len: "length demo_bars = 3" by (simp add: demo_bars_def)
  have n: "subplot_count ?inds = 3" by (simp add: subplot_count_def)
  have x: "chart_axis_rows ?inds = [(''RSI'', 2), (''MACD'', 3), (''Price'', 1)]"
    by (simp add: chart_axis_rows_def oscillator_info_def osc_row_values)
  have t: "chart_trace_info 3 ?inds =
        [(''Price'', 3, 1), (''Volume'', 3, 1), (''50-day MA'', 3, 1), (''200-day MA'', 3, 1),
         (''20-day EMA'', 3, 1),
         (''RSI (14)'', 3, 2), (''Overbought'', 2, 2), (''Oversold'', 2, 2), (''Middle'', 2, 2),
         (''MACD'', 3, 3), (''Signal'', 3, 3), (''Histogram'', 3, 3)]"
    by (simp add: chart_trace_info_def overlay_info_def oscillator_info_def osc_row_values)
  from oscillator_rows [OF ne, of ?inds] obtain fig where
    "create_technical_chart demo_bars (Some ?inds) = Inr fig"
    "rows fig = subplot_count ?inds"
    "axis_rows fig = chart_axis_rows ?inds"
    "trace_info fig = chart_trace_info (length demo_bars) ?inds"
    by blast
  then show ?thesis using ne len n x t by auto
qed

text \<open>
  The claim as stated fails for the request macd, rsi: in the order of the request the
  MACD would be in row 2 (panel 1) and the RSI in row 3 (panel 2), but the chart builder
  puts the RSI in row 2 and the MACD in row 3.
\<close>

theorem oscillator_rows_counterexample:
  "map_sum id axis_rows (create_technical_chart demo_bars (Some [''macd'', ''rsi''])) =
     Inr [(''RSI'', 2), (''MACD'', 3), (''Price'', 1)] \<and>
   request_order_row [''macd'', ''rsi''] ''macd'' = 2 \<and>
   request_order_row [''macd'', ''rsi''] ''rsi'' = 3"
proof -
  let ?inds = "[''macd'', ''rsi'']"
  have ok: "demo_bars \<noteq> [] \<or>
      (''rsi'' \<notin> set ?inds \<and> ''stoch'' \<notin> set ?inds \<and> ''obv'' \<notin> set ?inds)"
    by (simp add: demo_bars_def)
  from chart_layout [OF ok] obtain fig where
    r: "create_technical_chart demo_bars (Some ?inds) = Inr fig" and
    a: "axis_rows fig = chart_axis_rows ?inds"
    by blast
  have x: "chart_axis_rows ?inds = [(''RSI'', 2), (''MACD'', 3), (''Price'', 1)]"
    by (simp add: chart_axis_rows_def oscillator_info_def osc_row_values)
  have q: "request_order_row ?inds ''macd'' = 2" "request_order_row ?inds ''rsi'' = 3"
    by (simp_all add: request_order_row_def oscillator_order_def)
  show ?thesis using r a x q by simp
qed

end
